theory Spec2Isabelle
  imports Complex_Main "HOL-Library.Word"
begin

section \<open>Data model of the AdasumAllReduce kernel\<close>

text \<open>
  The kernel \<^verbatim>\<open>AdasumAllReduce::ComputeInternal\<close> of
  \<^verbatim>\<open>orttraining/training_ops/cuda/collective/adasum_kernels.cc\<close> moves raw bytes: it sizes
  and fills one host buffer from its input tensors, hands the buffer to the reducer and
  copies the regions back to the outputs. Memory is a list of cells; a cell that was
  allocated and never written is \<open>None\<close>.
\<close>

type_synonym byte = "8 word"
type_synonym cell = "byte option"

text \<open>
  Element types of tensors, with their widths in bytes: the three IEEE float kinds and,
  to have kinds that are no floats, two integer kinds.
\<close>

datatype MLDataType = FLOAT | FLOAT16 | DOUBLE | INT32 | INT64

fun element_bytes :: "MLDataType \<Rightarrow> nat" where
  "element_bytes FLOAT = 4"
| "element_bytes FLOAT16 = 2"
| "element_bytes DOUBLE = 8"
| "element_bytes INT32 = 4"
| "element_bytes INT64 = 8"

text \<open>
  A tensor: element type, shape (the dimension sizes, none negative) and its raw bytes.
  \<open>Shape_Size\<close> is \<^verbatim>\<open>Shape().Size()\<close>, the number of elements; \<open>SizeInBytes\<close> is
  the number of elements times the element width.
\<close>

record Tensor =
  DataType :: MLDataType
  Shape :: "nat list"
  DataRaw :: "byte list"

definition Shape_Size :: "Tensor \<Rightarrow> nat" where
  "Shape_Size x = prod_list (Shape x)"

definition SizeInBytes :: "Tensor \<Rightarrow> nat" where
  "SizeInBytes x = Shape_Size x * element_bytes (DataType x)"

definition tensor_ok :: "Tensor \<Rightarrow> bool" where
  "tensor_ok x = (length (DataRaw x) = SizeInBytes x)"

text \<open>The cast \<^verbatim>\<open>(int)x_tensor->Shape().Size()\<close>: the low 32 bits, read as signed.\<close>

definition to_int :: "nat \<Rightarrow> int" where
  "to_int n = sint (word_of_nat n :: 32 word)"

datatype AdasumReductionType = None_Reduction | CpuReduction | GpuHierarchical

datatype WorkerGroupType = GlobalParallel | DataParallel | NodeLocalDataParallel

text \<open>
  The error kinds a call can surface, and the status of a call. \<open>Undefined\<close> stands for
  undefined behaviour of the C++ code: a null tensor pointer dereferenced
  (\<open>NullTensor\<close>), a \<^verbatim>\<open>std::vector\<close> read outside its elements (\<open>VectorIndex\<close>), or a
  copy that leaves its buffer (\<open>BufferRange\<close>).
\<close>

datatype error =
    AllocationError
  | ElementCountMismatch
  | TensorCountMismatch
  | UnsupportedTypeError
  | CommunicationFailure
  | DeviceCopyError

datatype fault = NullTensor | VectorIndex | BufferRange

datatype status = OK | Failed error | Undefined fault

text \<open>The operator context: \<open>Input ctx i\<close> is the null pointer outside the inputs.\<close>

record OpKernelContext =
  inputs :: "Tensor list"

definition InputCount :: "OpKernelContext \<Rightarrow> nat" where
  "InputCount ctx = length (inputs ctx)"

definition Input :: "OpKernelContext \<Rightarrow> nat \<Rightarrow> Tensor option" where
  "Input ctx i = (if i < length (inputs ctx) then Some (inputs ctx ! i) else None)"

text \<open>An indexed read \<^verbatim>\<open>v[i]\<close> of a \<^verbatim>\<open>std::vector\<close>; \<open>None\<close> outside it.\<close>

definition vec_at :: "'a list \<Rightarrow> nat \<Rightarrow> 'a option" where
  "vec_at v i = (if i < length v then Some (v ! i) else None)"

text \<open>The arguments of one call of \<^verbatim>\<open>DispatchFusedAllreduce\<close>, in the source's order.\<close>

record ('c, 'r) reduce_args =
  grad_buffer :: "cell list"
  recv_buffer :: "cell list"
  tensor_counts :: "int list"
  start_level :: int
  communicator :: 'c
  tag :: int
  reduction_comms :: 'r
  data_type :: MLDataType

datatype cudaMemcpyKind = cudaMemcpyDeviceToHost | cudaMemcpyHostToDevice

text \<open>
  What the kernel reads from outside its own file, taken as parameters:
  the configured algorithm; \<^verbatim>\<open>DistributedRunContext::GroupSize\<close>; the communicator of
  \<^verbatim>\<open>MPIContext::GetMPIGroup\<close>; the reducer with its \<^verbatim>\<open>GetReductionComms\<close> and
  \<^verbatim>\<open>DispatchFusedAllreduce\<close> (which works on the buffer in place: \<open>Inr\<close> carries the
  buffer's new contents, \<open>Inl\<close> the error status); which \<^verbatim>\<open>cudaMemcpy\<close> calls fail
  (by direction and tensor index); and whether the macro \<^verbatim>\<open>CUDA_CALL\<close> leaves the
  function on a failed call or only evaluates to a flag, which the kernel discards.
\<close>

record ('c, 'r) AdasumAllReduce =
  adasum_reduce_algo :: AdasumReductionType
  GroupSize :: "WorkerGroupType \<Rightarrow> int"
  GetMPIGroup_communicator :: "WorkerGroupType \<Rightarrow> 'c"
  GetReductionComms :: 'r
  DispatchFusedAllreduce :: "('c, 'r) reduce_args \<Rightarrow> error + cell list"
  cudaMemcpy_fails :: "cudaMemcpyKind \<Rightarrow> nat \<Rightarrow> bool"
  CUDA_CALL_aborts :: bool

text \<open>
  What a call leaves behind: its status, the output tensors it created (by index, with
  their bytes) and the reducer calls it made.
\<close>

record ('c, 'r) run =
  result :: status
  outputs :: "nat \<rightharpoonup> cell list"
  dispatched :: "('c, 'r) reduce_args list"

section \<open>The kernel\<close>

text \<open>
  A counted loop \<^verbatim>\<open>for (int i = 0; i < n; ++i)\<close> whose body may leave the function:
  the loop stops at the first status other than \<open>OK\<close> and keeps the state reached.
\<close>

fun for_loop :: "(nat \<Rightarrow> 's \<Rightarrow> status \<times> 's) \<Rightarrow> nat list \<Rightarrow> 's \<Rightarrow> status \<times> 's" where
  "for_loop body [] s = (OK, s)"
| "for_loop body (i # rest) s =
     (let (st, s') = body i s in if st = OK then for_loop body rest s' else (st, s'))"

text \<open>
  The locals of the first loop. Byte sizes and offsets are natural numbers: the tensors
  of one request are in memory together, so their sizes add up below the range of
  \<^verbatim>\<open>size_t\<close> and \<^verbatim>\<open>int64_t\<close>. The element counts are the \<^verbatim>\<open>int\<close>s the cast yields.
\<close>

record staging =
  tensor_element_counts :: "int list"
  tensor_offsets :: "nat list"
  tensor_sizes :: "nat list"
  total_recv_buffer_len :: nat
  size_in_bytes :: nat

definition staging_init :: staging where
  "staging_init = \<lparr>tensor_element_counts = [], tensor_offsets = [], tensor_sizes = [],
     total_recv_buffer_len = 0, size_in_bytes = 0\<rparr>"

text \<open>
  Body of the first loop: push the current \<^verbatim>\<open>size_in_bytes\<close> as the tensor's offset,
  then assign the tensor's byte size to \<^verbatim>\<open>size_in_bytes\<close>, add it to the total, and
  push size and element count.
\<close>

definition record_tensor :: "OpKernelContext \<Rightarrow> nat \<Rightarrow> staging \<Rightarrow> status \<times> staging" where
  "record_tensor ctx i s =
     (case Input ctx i of
        None \<Rightarrow> (Undefined NullTensor, s)
      | Some x_tensor \<Rightarrow>
          (OK, \<lparr>tensor_element_counts = tensor_element_counts s @ [to_int (Shape_Size x_tensor)],
                tensor_offsets = tensor_offsets s @ [size_in_bytes s],
                tensor_sizes = tensor_sizes s @ [SizeInBytes x_tensor],
                total_recv_buffer_len = total_recv_buffer_len s + SizeInBytes x_tensor,
                size_in_bytes = SizeInBytes x_tensor\<rparr>))"

text \<open>\<^verbatim>\<open>allocator->Alloc(n)\<close>: \<open>n\<close> cells, none written yet.\<close>

definition Alloc :: "nat \<Rightarrow> cell list" where
  "Alloc n = replicate n None"

text \<open>Writing \<open>src\<close> into a buffer at an offset, and reading \<open>n\<close> cells at an offset.\<close>

definition write_at :: "cell list \<Rightarrow> nat \<Rightarrow> cell list \<Rightarrow> cell list option" where
  "write_at buf off src =
     (if off + length src \<le> length buf
      then Some (take off buf @ src @ drop (off + length src) buf) else None)"

definition read_at :: "cell list \<Rightarrow> nat \<Rightarrow> nat \<Rightarrow> cell list option" where
  "read_at buf off n = (if off + n \<le> length buf then Some (take n (drop off buf)) else None)"

definition read_tensor :: "Tensor \<Rightarrow> nat \<Rightarrow> cell list option" where
  "read_tensor x n = (if n \<le> length (DataRaw x) then Some (map Some (take n (DataRaw x))) else None)"

text \<open>
  Body of the second loop: copy \<^verbatim>\<open>tensor_sizes[i]\<close> bytes of input \<open>i\<close> to
  \<^verbatim>\<open>data_buffer + tensor_offsets[i]\<close>. A failed \<^verbatim>\<open>cudaMemcpy\<close> copies nothing.
\<close>

definition copy_in ::
  "('c, 'r) AdasumAllReduce \<Rightarrow> OpKernelContext \<Rightarrow> staging \<Rightarrow> nat \<Rightarrow> cell list \<Rightarrow> status \<times> cell list"
where
  "copy_in k ctx s i buf =
     (case Input ctx i of
        None \<Rightarrow> (Undefined NullTensor, buf)
      | Some x_tensor \<Rightarrow>
          (case vec_at (tensor_offsets s) i of
             None \<Rightarrow> (Undefined VectorIndex, buf)
           | Some off \<Rightarrow>
               (case vec_at (tensor_sizes s) i of
                  None \<Rightarrow> (Undefined VectorIndex, buf)
                | Some n \<Rightarrow>
                    (if cudaMemcpy_fails k cudaMemcpyDeviceToHost i
                     then (if CUDA_CALL_aborts k then (Failed DeviceCopyError, buf) else (OK, buf))
                     else (case read_tensor x_tensor n of
                             None \<Rightarrow> (Undefined BufferRange, buf)
                           | Some src \<Rightarrow>
                               (case write_at buf off src of
                                  None \<Rightarrow> (Undefined BufferRange, buf)
                                | Some buf' \<Rightarrow> (OK, buf')))))))"

text \<open>
  Body of the third loop: create output \<open>i\<close> with the shape of input \<open>i\<close>, then copy
  \<^verbatim>\<open>tensor_sizes[i]\<close> bytes from \<^verbatim>\<open>data_buffer + tensor_offsets[i]\<close> into it. After a
  failed \<^verbatim>\<open>cudaMemcpy\<close> the output exists and none of its bytes is written.
\<close>

definition copy_out ::
  "('c, 'r) AdasumAllReduce \<Rightarrow> OpKernelContext \<Rightarrow> staging \<Rightarrow> cell list \<Rightarrow> nat \<Rightarrow>
     (nat \<rightharpoonup> cell list) \<Rightarrow> status \<times> (nat \<rightharpoonup> cell list)"
where
  "copy_out k ctx s buf i outs =
     (case Input ctx i of
        None \<Rightarrow> (Undefined NullTensor, outs)
      | Some x_tensor \<Rightarrow>
          (let y_tensor = Alloc (SizeInBytes x_tensor); outs1 = outs(i \<mapsto> y_tensor) in
           case vec_at (tensor_offsets s) i of
             None \<Rightarrow> (Undefined VectorIndex, outs1)
           | Some off \<Rightarrow>
               (case vec_at (tensor_sizes s) i of
                  None \<Rightarrow> (Undefined VectorIndex, outs1)
                | Some n \<Rightarrow>
                    (if cudaMemcpy_fails k cudaMemcpyHostToDevice i
                     then (if CUDA_CALL_aborts k then (Failed DeviceCopyError, outs1) else (OK, outs1))
                     else (case read_at buf off n of
                             None \<Rightarrow> (Undefined BufferRange, outs1)
                           | Some src \<Rightarrow>
                               (case write_at y_tensor 0 src of
                                  None \<Rightarrow> (Undefined BufferRange, outs1)
                                | Some y' \<Rightarrow> (OK, outs(i \<mapsto> y'))))))))"

text \<open>The start level: 1, or the node-local group size under \<open>GpuHierarchical\<close>.\<close>

definition vhdd_start_level :: "('c, 'r) AdasumAllReduce \<Rightarrow> int" where
  "vhdd_start_level k =
     (if adasum_reduce_algo k = GpuHierarchical then GroupSize k NodeLocalDataParallel else 1)"

text \<open>The reducer's arguments, as the call site builds them from the staged buffer.\<close>

definition dispatch_args ::
  "('c, 'r) AdasumAllReduce \<Rightarrow> staging \<Rightarrow> cell list \<Rightarrow> MLDataType \<Rightarrow> ('c, 'r) reduce_args"
where
  "dispatch_args k s data_buffer dt =
     \<lparr>grad_buffer = data_buffer,
      recv_buffer = Alloc (total_recv_buffer_len s),
      tensor_counts = tensor_element_counts s,
      start_level = vhdd_start_level k,
      communicator = GetMPIGroup_communicator k GlobalParallel,
      tag = 0,
      reduction_comms = GetReductionComms k,
      data_type = dt\<rparr>"

text \<open>
  \<^verbatim>\<open>ComputeInternal\<close>: the three loops around the reducer call. The element type
  passed to the reducer is that of input 0, read through the pointer without a test.
\<close>

definition ComputeInternal :: "('c, 'r) AdasumAllReduce \<Rightarrow> OpKernelContext \<Rightarrow> ('c, 'r) run" where
  "ComputeInternal k ctx =
     (let num_tensors = InputCount ctx;
          (st1, s) = for_loop (record_tensor ctx) [0..<num_tensors] staging_init
      in if st1 \<noteq> OK then \<lparr>result = st1, outputs = Map.empty, dispatched = []\<rparr>
      else
        let (st2, data_buffer) =
              for_loop (copy_in k ctx s) [0..<num_tensors] (Alloc (total_recv_buffer_len s))
        in if st2 \<noteq> OK then \<lparr>result = st2, outputs = Map.empty, dispatched = []\<rparr>
        else
          (case Input ctx 0 of
             None \<Rightarrow> \<lparr>result = Undefined NullTensor, outputs = Map.empty, dispatched = []\<rparr>
           | Some x0 \<Rightarrow>
               (let args = dispatch_args k s data_buffer (DataType x0) in
                case DispatchFusedAllreduce k args of
                  Inl e \<Rightarrow> \<lparr>result = Failed e, outputs = Map.empty, dispatched = [args]\<rparr>
                | Inr reduced \<Rightarrow>
                    (let (st3, outs) =
                           for_loop (copy_out k ctx s reduced) [0..<num_tensors] Map.empty
                     in \<lparr>result = st3, outputs = outs, dispatched = [args]\<rparr>))))"



section \<open>The registration of the kernel\<close>

text \<open>
  \<^verbatim>\<open>ONNX_OPERATOR_KERNEL_EX(AdasumAllReduce, kMSDomain, 1, kCudaExecutionProvider, ...)\<close>:
  output \<open>i\<close> aliases input \<open>i\<close> for \<open>i < 1024\<close>, and the type parameter \<open>T\<close> ranges over
  \<^verbatim>\<open>DataTypeImpl::AllIEEEFloatTensorTypes()\<close>. That list is defined outside the kernel's
  file and is a parameter here. A kernel accepts an element type when every type
  constraint lists it.
\<close>

record KernelDef =
  op_name :: string
  op_domain :: string
  since_version :: nat
  provider :: string
  alias_map :: "(nat \<times> nat) list"
  type_constraints :: "(string \<times> MLDataType list) list"

definition AliasRange :: "nat \<Rightarrow> nat \<Rightarrow> (nat \<times> nat) list" where
  "AliasRange lo hi = map (\<lambda>i. (i, i)) [lo..<hi]"

definition AdasumAllReduce_kernel :: "MLDataType list \<Rightarrow> KernelDef" where
  "AdasumAllReduce_kernel AllIEEEFloatTensorTypes =
     \<lparr>op_name = ''AdasumAllReduce'', op_domain = ''kMSDomain'', since_version = 1,
      provider = ''kCudaExecutionProvider'', alias_map = AliasRange 0 1024,
      type_constraints = [(''T'', AllIEEEFloatTensorTypes)]\<rparr>"

definition accepts :: "KernelDef \<Rightarrow> MLDataType \<Rightarrow> bool" where
  "accepts kd t = list_all (\<lambda>(name, types). t \<in> set types) (type_constraints kd)"

section \<open>The test graph\<close>

text \<open>
  \<^verbatim>\<open>build_allreduce_graph\<close> of \<^verbatim>\<open>allreduce_op_test.cc\<close>: the nodes it adds to the graph,
  in order. Every node argument is a float tensor of \<open>num_of_elements\<close> elements. The
  integer behind an \<^verbatim>\<open>AdasumReductionType\<close> is declared outside the file: \<open>code\<close>. The
  final \<^verbatim>\<open>graph.Resolve()\<close> belongs to the graph library and is left out.
\<close>

record NodeArg =
  arg_name :: string
  elem_type :: MLDataType
  dims :: "nat list"

record Node =
  node_name :: string
  op_type :: string
  description :: string
  input_args :: "NodeArg list"
  output_args :: "NodeArg list"
  attributes :: "(string \<times> int) list"
  node_domain :: string

definition float_tensor :: "nat \<Rightarrow> string \<Rightarrow> NodeArg" where
  "float_tensor num_of_elements name =
     \<lparr>arg_name = name, elem_type = FLOAT, dims = [num_of_elements]\<rparr>"

definition build_allreduce_graph ::
  "(AdasumReductionType \<Rightarrow> int) \<Rightarrow> nat \<Rightarrow> AdasumReductionType \<Rightarrow> Node list"
where
  "build_allreduce_graph code num_of_elements adasum_reduce_type =
     (let allreduce_input_arg = float_tensor num_of_elements ''input_t'';
          output_arg_1 = float_tensor num_of_elements ''node_1_out_1'';
          allreduce_op_name =
            (if adasum_reduce_type = None_Reduction then ''NcclAllReduce'' else ''AdasumAllReduce'');
          level_1_output_arg = float_tensor num_of_elements ''node_level_1_out'';
          level_1 =
            (if adasum_reduce_type = GpuHierarchical
             then [\<lparr>node_name = ''node_level_1'', op_type = ''NcclAllReduce'',
                     description = ''level 1 allreduce.'',
                     input_args = [allreduce_input_arg], output_args = [level_1_output_arg],
                     attributes = [(''group_type'', 2)], node_domain = ''kMSDomain''\<rparr>]
             else []);
          node_inputs =
            (if adasum_reduce_type = GpuHierarchical then [level_1_output_arg]
             else [allreduce_input_arg]);
          attribute =
            (if adasum_reduce_type \<noteq> None_Reduction
             then (''reduce_algo'', code adasum_reduce_type)
             else (''group_type'', 0))
      in level_1 @
         [\<lparr>node_name = ''node_allreduce'', op_type = allreduce_op_name,
           description = ''node allreduce.'',
           input_args = node_inputs, output_args = [output_arg_1],
           attributes = [attribute], node_domain = ''kMSDomain''\<rparr>])"

section \<open>The reducer's arithmetic\<close>

text \<open>
  Modelled from the spec: the reducer behind \<^verbatim>\<open>DispatchFusedAllreduce\<close> (the Adasum
  combination of two vectors and the exchange between ranks) and the flat sum collective
  are not in the two source files; the tests only state their results. The definitions
  follow the spec's section 4.2, step 3, over the real numbers: rounding of 32-bit and
  16-bit floats is not modelled.

  One pass over both vectors accumulates the dot product and the two squared norms.
\<close>

fun dot_and_norms :: "real list \<Rightarrow> real list \<Rightarrow> real \<times> real \<times> real \<Rightarrow> real \<times> real \<times> real" where
  "dot_and_norms (x # a) (y # b) (ab, aa, bb) =
     dot_and_norms a b (ab + x * y, aa + x * x, bb + y * y)"
| "dot_and_norms a b acc = acc"

text \<open>
  Modelled from the spec: if both squared norms are non-zero, weight \<open>a\<close> by
  \<open>1 - (a\<cdot>b)/(2\<parallel>a\<parallel>\<^sup>2)\<close> and \<open>b\<close> by \<open>1 - (a\<cdot>b)/(2\<parallel>b\<parallel>\<^sup>2)\<close> and add the weighted vectors;
  otherwise add the two vectors.
\<close>

definition adasum_combine :: "real list \<Rightarrow> real list \<Rightarrow> real list" where
  "adasum_combine a b =
     (case dot_and_norms a b (0, 0, 0) of
        (ab, aa, bb) \<Rightarrow>
          if aa \<noteq> 0 \<and> bb \<noteq> 0
          then map2 (\<lambda>x y. (1 - ab / (2 * aa)) * x + (1 - ab / (2 * bb)) * y) a b
          else map2 (\<lambda>x y. x + y) a b)"

text \<open>
  Modelled from the spec: a fused request is combined tensor by tensor, the weights of
  each tensor computed from that tensor alone, never across tensor boundaries.
\<close>

definition fused_adasum :: "real list list \<Rightarrow> real list list \<Rightarrow> real list list" where
  "fused_adasum local received = map2 adasum_combine local received"

text \<open>
  Modelled from the spec: with two ranks there is one level and one pair; each rank ends
  with the combination of its own tensors and its partner's.
\<close>

definition adasum_world2 ::
  "real list list \<Rightarrow> real list list \<Rightarrow> real list list \<times> real list list" where
  "adasum_world2 rank0 rank1 = (fused_adasum rank0 rank1, fused_adasum rank1 rank0)"

text \<open>
  Modelled from the spec: the flat collective adds the vectors of all ranks element by
  element.
\<close>

fun flat_sum :: "real list list \<Rightarrow> real list" where
  "flat_sum [] = []"
| "flat_sum (r # ranks) = fold (\<lambda>v acc. map2 (\<lambda>x y. x + y) acc v) ranks r"

text \<open>Modelled from the spec: every rank receives the flat sum.\<close>

definition flat_allreduce :: "real list list \<Rightarrow> real list list" where
  "flat_allreduce ranks = map (\<lambda>_. flat_sum ranks) ranks"

text \<open>
  The spec's notation for vectors, to state what the definitions above compute: the dot
  product \<open>a\<cdot>b\<close> (so \<open>\<parallel>a\<parallel>\<^sup>2\<close> is \<open>dot a a\<close>), the multiple of a vector and the sum of two vectors.
\<close>

definition dot :: "real list \<Rightarrow> real list \<Rightarrow> real" where
  "dot a b = sum_list (map2 (\<lambda>x y. x * y) a b)"

definition scale :: "real \<Rightarrow> real list \<Rightarrow> real list" where
  "scale c v = map (\<lambda>x. c * x) v"

definition vadd :: "real list \<Rightarrow> real list \<Rightarrow> real list" where
  "vadd a b = map2 (\<lambda>x y. x + y) a b"

text \<open>Agreement of two vectors within a tolerance, as the tests compare floats.\<close>

definition near :: "real \<Rightarrow> real list \<Rightarrow> real list \<Rightarrow> bool" where
  "near tol xs ys = list_all2 (\<lambda>x y. \<bar>x - y\<bar> < tol) xs ys"

section \<open>What the first loop computes, and what the spec asks of it\<close>

text \<open>The locals after \<open>m\<close> rounds of the first loop, in closed form.\<close>

definition staged :: "Tensor list \<Rightarrow> nat \<Rightarrow> staging" where
  "staged ts m =
     \<lparr>tensor_element_counts = map (\<lambda>x. to_int (Shape_Size x)) (take m ts),
      tensor_offsets = map (\<lambda>i. if i = 0 then 0 else SizeInBytes (ts ! (i - 1))) [0..<m],
      tensor_sizes = map SizeInBytes (take m ts),
      total_recv_buffer_len = sum_list (map SizeInBytes (take m ts)),
      size_in_bytes = (if m = 0 then 0 else SizeInBytes (ts ! (m - 1)))\<rparr>"

definition tables :: "OpKernelContext \<Rightarrow> staging" where
  "tables ctx = staged (inputs ctx) (length (inputs ctx))"

definition staged_buffer :: "('c, 'r) AdasumAllReduce \<Rightarrow> OpKernelContext \<Rightarrow> status \<times> cell list" where
  "staged_buffer k ctx =
     for_loop (copy_in k ctx (tables ctx)) [0..<InputCount ctx]
       (Alloc (total_recv_buffer_len (tables ctx)))"

definition region :: "OpKernelContext \<Rightarrow> cell list \<Rightarrow> nat \<Rightarrow> cell list" where
  "region ctx buf i =
     take (SizeInBytes (inputs ctx ! i)) (drop (tensor_offsets (tables ctx) ! i) buf)"

text \<open>
  The packed buffer as the spec words it: the offset of tensor \<open>i\<close> is the sum of the
  byte sizes of the tensors before it.
\<close>

definition packed_offsets :: "nat list \<Rightarrow> nat list" where
  "packed_offsets sizes = map (\<lambda>i. sum_list (take i sizes)) [0..<length sizes]"

text \<open>
  The part of tensor \<open>i\<close> in a buffer with the packed layout, and the packed bytes of the
  inputs of a request.
\<close>

definition packed_region :: "OpKernelContext \<Rightarrow> cell list \<Rightarrow> nat \<Rightarrow> cell list" where
  "packed_region ctx buf i =
     take (SizeInBytes (inputs ctx ! i))
       (drop (packed_offsets (map SizeInBytes (inputs ctx)) ! i) buf)"

definition packed_inputs :: "OpKernelContext \<Rightarrow> cell list" where
  "packed_inputs ctx = concat (map (\<lambda>x. map Some (DataRaw x)) (inputs ctx))"

text \<open>
  A reducer works in place when a successful call returns a buffer as long as the one it
  was given.
\<close>

definition in_place :: "('c, 'r) AdasumAllReduce \<Rightarrow> bool" where
  "in_place k =
     (\<forall>a reduced. DispatchFusedAllreduce k a = Inr reduced
        \<longrightarrow> length reduced = length (grad_buffer a))"

section \<open>Test data\<close>

text \<open>
  The gradients of the tests as 32-bit floats, least significant byte first:
  \<open>[4, 5, 6]\<close> and \<open>[7, 8, 9]\<close>; and three tensors of one, two and one element.
\<close>

definition G456 :: Tensor where
  "G456 = \<lparr>DataType = FLOAT, Shape = [3],
     DataRaw = [0, 0, 0x80, 0x40, 0, 0, 0xA0, 0x40, 0, 0, 0xC0, 0x40]\<rparr>"

definition G789 :: Tensor where
  "G789 = \<lparr>DataType = FLOAT, Shape = [3],
     DataRaw = [0, 0, 0xE0, 0x40, 0, 0, 0x00, 0x41, 0, 0, 0x10, 0x41]\<rparr>"

definition T4 :: Tensor where
  "T4 = \<lparr>DataType = FLOAT, Shape = [1], DataRaw = [0, 0, 0x80, 0x40]\<rparr>"

definition T56 :: Tensor where
  "T56 = \<lparr>DataType = FLOAT, Shape = [2], DataRaw = [0, 0, 0xA0, 0x40, 0, 0, 0xC0, 0x40]\<rparr>"

definition T7 :: Tensor where
  "T7 = \<lparr>DataType = FLOAT, Shape = [1], DataRaw = [0, 0, 0xE0, 0x40]\<rparr>"

definition D1 :: Tensor where
  "D1 = \<lparr>DataType = DOUBLE, Shape = [1], DataRaw = [0, 0, 0, 0, 0, 0, 0xF0, 0x3F]\<rparr>"

text \<open>
  A kernel for the tests: two ranks on one node, a given algorithm, reducer and
  \<^verbatim>\<open>cudaMemcpy\<close> failures. \<open>unchanged\<close> is a reducer that succeeds and leaves the buffer
  as it is; \<open>reports e\<close> is one that returns the error \<open>e\<close>.
\<close>

definition test_kernel ::
  "AdasumReductionType \<Rightarrow> ((string, unit) reduce_args \<Rightarrow> error + cell list) \<Rightarrow>
     (cudaMemcpyKind \<Rightarrow> nat \<Rightarrow> bool) \<Rightarrow> bool \<Rightarrow> (string, unit) AdasumAllReduce"
where
  "test_kernel algo reducer fails aborts =
     \<lparr>adasum_reduce_algo = algo,
      GroupSize = (\<lambda>g. 2),
      GetMPIGroup_communicator =
        (\<lambda>g. case g of GlobalParallel \<Rightarrow> ''global'' | DataParallel \<Rightarrow> ''data''
              | NodeLocalDataParallel \<Rightarrow> ''node-local''),
      GetReductionComms = (),
      DispatchFusedAllreduce = reducer,
      cudaMemcpy_fails = fails,
      CUDA_CALL_aborts = aborts\<rparr>"

definition unchanged :: "('c, 'r) reduce_args \<Rightarrow> error + cell list" where
  "unchanged a = Inr (grad_buffer a)"

definition reports :: "error \<Rightarrow> ('c, 'r) reduce_args \<Rightarrow> error + cell list" where
  "reports e a = Inl e"

definition no_failure :: "cudaMemcpyKind \<Rightarrow> nat \<Rightarrow> bool" where
  "no_failure d i = False"



section \<open>Lemmas about the loops\<close>

lemma for_loop_append:
  "for_loop body (xs @ ys) s =
     (let (st, s') = for_loop body xs s in if st = OK then for_loop body ys s' else (st, s'))"
  by (induction xs arbitrary: s) (auto split: prod.splits)

lemma for_loop_status:
  assumes "P s"
    and "\<And>i s. i \<in> set idx \<Longrightarrow> P s \<Longrightarrow> fst (body i s) \<in> insert OK A \<and> P (snd (body i s))"
  shows "fst (for_loop body idx s) \<in> insert OK A \<and> P (snd (for_loop body idx s))"
  using assms
proof (induction idx arbitrary: s)
  case Nil
  then show ?case by simp
next
  case (Cons i rest)
  have b: "fst (body i s) \<in> insert OK A \<and> P (snd (body i s))"
    using Cons.prems by simp
  show ?case
  proof (cases "fst (body i s) = OK")
    case True
    have "fst (for_loop body rest (snd (body i s))) \<in> insert OK A
        \<and> P (snd (for_loop body rest (snd (body i s))))"
      by (rule Cons.IH) (use b Cons.prems in auto)
    then show ?thesis using True by (simp add: case_prod_beta)
  next
    case False
    then show ?thesis using b by (simp add: case_prod_beta)
  qed
qed



lemma record_loop:
  "m \<le> length (inputs ctx) \<Longrightarrow>
     for_loop (record_tensor ctx) [0..<m] staging_init = (OK, staged (inputs ctx) m)"
proof (induction m)
  case 0
  then show ?case by (simp add: staged_def staging_init_def)
next
  case (Suc m)
  then have m: "m < length (inputs ctx)" by simp
  have "record_tensor ctx m (staged (inputs ctx) m) = (OK, staged (inputs ctx) (Suc m))"
    using m by (simp add: record_tensor_def Input_def staged_def take_Suc_conv_app_nth)
  then show ?case using Suc by (simp add: for_loop_append)
qed

lemma adjacent_le_sum_list:
  "Suc j < length xs \<Longrightarrow> xs ! j + xs ! Suc j \<le> sum_list (xs :: nat list)"
proof (induction xs arbitrary: j)
  case Nil
  then show ?case by simp
next
  case (Cons x xs)
  show ?case
  proof (cases j)
    case 0
    then have "xs ! 0 \<in> set xs" using Cons.prems by simp
    then have "xs ! 0 \<le> sum_list xs" by (simp add: member_le_sum_list)
    then show ?thesis using 0 by simp
  next
    case (Suc j')
    then have "xs ! j' + xs ! Suc j' \<le> sum_list xs" using Cons by simp
    then show ?thesis using Suc by simp
  qed
qed

lemma region_in_buffer:
  assumes "i < length ts"
  shows "tensor_offsets (staged ts (length ts)) ! i + SizeInBytes (ts ! i)
           \<le> total_recv_buffer_len (staged ts (length ts))"
proof (cases i)
  case 0
  have "SizeInBytes (ts ! 0) \<in> set (map SizeInBytes ts)" using assms 0 by auto
  then have "SizeInBytes (ts ! 0) \<le> sum_list (map SizeInBytes ts)"
    by (simp add: member_le_sum_list)
  then show ?thesis using 0 assms by (simp add: staged_def)
next
  case (Suc j)
  have "map SizeInBytes ts ! j + map SizeInBytes ts ! Suc j \<le> sum_list (map SizeInBytes ts)"
    by (rule adjacent_le_sum_list) (use assms Suc in simp)
  then show ?thesis using Suc assms by (simp add: staged_def)
qed

lemma staged_at:
  assumes "i < length ts"
  shows "vec_at (tensor_offsets (staged ts (length ts))) i
           = Some (tensor_offsets (staged ts (length ts)) ! i)"
    and "vec_at (tensor_sizes (staged ts (length ts))) i = Some (SizeInBytes (ts ! i))"
  using assms by (simp_all add: vec_at_def staged_def)





lemma ComputeInternal_staged:
  "ComputeInternal k ctx =
     (let (st2, data_buffer) = staged_buffer k ctx
      in if st2 \<noteq> OK then \<lparr>result = st2, outputs = Map.empty, dispatched = []\<rparr>
      else
        (case Input ctx 0 of
           None \<Rightarrow> \<lparr>result = Undefined NullTensor, outputs = Map.empty, dispatched = []\<rparr>
         | Some x0 \<Rightarrow>
             (let args = dispatch_args k (tables ctx) data_buffer (DataType x0) in
              case DispatchFusedAllreduce k args of
                Inl e \<Rightarrow> \<lparr>result = Failed e, outputs = Map.empty, dispatched = [args]\<rparr>
              | Inr reduced \<Rightarrow>
                  (let (st3, outs) =
                         for_loop (copy_out k ctx (tables ctx) reduced) [0..<InputCount ctx] Map.empty
                   in \<lparr>result = st3, outputs = outs, dispatched = [args]\<rparr>))))"
  unfolding ComputeInternal_def staged_buffer_def tables_def InputCount_def
  by (simp add: record_loop Let_def)

lemma copy_in_status:
  assumes "i < length (inputs ctx)"
  shows "fst (copy_in k ctx (tables ctx) i buf)
           \<in> insert OK {Failed DeviceCopyError, Undefined BufferRange}"
  using assms
  by (simp add: copy_in_def Input_def tables_def staged_at split: option.splits)

lemma copy_in_ok:
  assumes "i < length (inputs ctx)" and "tensor_ok (inputs ctx ! i)"
    and "length buf = total_recv_buffer_len (tables ctx)"
  shows "fst (copy_in k ctx (tables ctx) i buf) \<in> insert OK {Failed DeviceCopyError}
       \<and> length (snd (copy_in k ctx (tables ctx) i buf)) = total_recv_buffer_len (tables ctx)"
  using assms region_in_buffer [of i "inputs ctx"]
  by (simp add: copy_in_def Input_def tables_def staged_at read_tensor_def write_at_def
      tensor_ok_def)

lemma copy_in_no_abort:
  assumes "i < length (inputs ctx)" and "tensor_ok (inputs ctx ! i)"
    and "length buf = total_recv_buffer_len (tables ctx)"
    and "\<not> (CUDA_CALL_aborts k \<and> cudaMemcpy_fails k cudaMemcpyDeviceToHost i)"
  shows "fst (copy_in k ctx (tables ctx) i buf) \<in> insert OK {}
       \<and> length (snd (copy_in k ctx (tables ctx) i buf)) = total_recv_buffer_len (tables ctx)"
  using assms region_in_buffer [of i "inputs ctx"]
  by (auto simp add: copy_in_def Input_def tables_def staged_at read_tensor_def write_at_def
      tensor_ok_def)

lemma copy_out_status:
  assumes "i < length (inputs ctx)"
  shows "fst (copy_out k ctx (tables ctx) reduced i outs)
           \<in> insert OK {Failed DeviceCopyError, Undefined BufferRange}"
  using assms
  by (simp add: copy_out_def Input_def tables_def staged_at Let_def split: option.splits)

lemma staged_buffer_status:
  "fst (staged_buffer k ctx) \<in> insert OK {Failed DeviceCopyError, Undefined BufferRange}"
proof -
  have "fst (staged_buffer k ctx) \<in> insert OK {Failed DeviceCopyError, Undefined BufferRange}
      \<and> True"
    unfolding staged_buffer_def
    by (rule for_loop_status) (use copy_in_status in \<open>simp_all add: InputCount_def\<close>)
  then show ?thesis by simp
qed

lemma scatter_status:
  "fst (for_loop (copy_out k ctx (tables ctx) reduced) [0..<InputCount ctx] outs)
     \<in> insert OK {Failed DeviceCopyError, Undefined BufferRange}"
proof -
  have "fst (for_loop (copy_out k ctx (tables ctx) reduced) [0..<InputCount ctx] outs)
      \<in> insert OK {Failed DeviceCopyError, Undefined BufferRange} \<and> True"
    by (rule for_loop_status) (use copy_out_status in \<open>simp_all add: InputCount_def\<close>)
  then show ?thesis by simp
qed

lemma staged_buffer_ok:
  assumes "\<forall>x \<in> set (inputs ctx). tensor_ok x"
    and "\<not> (CUDA_CALL_aborts k \<and> (\<exists>i < InputCount ctx. cudaMemcpy_fails k cudaMemcpyDeviceToHost i))"
  shows "fst (staged_buffer k ctx) = OK
       \<and> length (snd (staged_buffer k ctx)) = total_recv_buffer_len (tables ctx)"
proof -
  have "fst (staged_buffer k ctx) \<in> insert OK {}
      \<and> length (snd (staged_buffer k ctx)) = total_recv_buffer_len (tables ctx)"
    unfolding staged_buffer_def
  proof (rule for_loop_status
      [where P = "\<lambda>buf. length buf = total_recv_buffer_len (tables ctx)" and A = "{}"])
    show "length (Alloc (total_recv_buffer_len (tables ctx))) = total_recv_buffer_len (tables ctx)"
      by (simp add: Alloc_def)
  next
    fix i and buf :: "cell list"
    assume i: "i \<in> set [0..<InputCount ctx]"
      and len: "length buf = total_recv_buffer_len (tables ctx)"
    from i have lt: "i < length (inputs ctx)" by (simp add: InputCount_def)
    show "fst (copy_in k ctx (tables ctx) i buf) \<in> insert OK {}
        \<and> length (snd (copy_in k ctx (tables ctx) i buf)) = total_recv_buffer_len (tables ctx)"
      by (rule copy_in_no_abort) (use lt len assms in \<open>auto simp: InputCount_def\<close>)
  qed
  then show ?thesis by simp
qed



lemma copy_out_ok:
  assumes "i < length (inputs ctx)"
    and "length reduced = total_recv_buffer_len (tables ctx)"
    and "\<not> cudaMemcpy_fails k cudaMemcpyHostToDevice i"
  shows "copy_out k ctx (tables ctx) reduced i outs = (OK, outs(i \<mapsto> region ctx reduced i))"
  using assms region_in_buffer [of i "inputs ctx"]
  by (simp add: copy_out_def Input_def tables_def staged_at read_at_def write_at_def
      Alloc_def region_def Let_def)

lemma scatter_ok:
  assumes "length reduced = total_recv_buffer_len (tables ctx)"
    and "\<forall>i < InputCount ctx. \<not> cudaMemcpy_fails k cudaMemcpyHostToDevice i"
    and "m \<le> InputCount ctx"
  shows "for_loop (copy_out k ctx (tables ctx) reduced) [0..<m] Map.empty
           = (OK, \<lambda>i. if i < m then Some (region ctx reduced i) else None)"
  using assms(3)
proof (induction m)
  case 0
  then show ?case by simp
next
  case (Suc m)
  then have m: "m < length (inputs ctx)" by (simp add: InputCount_def)
  have step: "copy_out k ctx (tables ctx) reduced m outs = (OK, outs(m \<mapsto> region ctx reduced m))"
    for outs
    by (rule copy_out_ok) (use m assms in \<open>simp_all add: InputCount_def\<close>)
  have "(\<lambda>i. if i < m then Some (region ctx reduced i) else None)(m \<mapsto> region ctx reduced m)
      = (\<lambda>i. if i < Suc m then Some (region ctx reduced i) else None)"
    by (auto simp: fun_eq_iff)
  then show ?case using Suc step by (simp add: for_loop_append)
qed

lemmas kernel_eval =
  ComputeInternal_def InputCount_def Input_def vec_at_def record_tensor_def staging_init_def
  copy_in_def copy_out_def read_tensor_def read_at_def write_at_def Alloc_def
  dispatch_args_def vhdd_start_level_def Shape_Size_def SizeInBytes_def to_int_def Let_def
  upt_rec






lemmas test_data = G456_def G789_def test_kernel_def unchanged_def reports_def no_failure_def


lemma Input_0: "Input ctx 0 = (case inputs ctx of [] \<Rightarrow> None | x0 # rest \<Rightarrow> Some x0)"
  by (simp add: Input_def split: list.splits)

lemma dispatched_cases:
  "dispatched (ComputeInternal k ctx) = []
     \<or> (\<exists>x0 rest. inputs ctx = x0 # rest
          \<and> fst (staged_buffer k ctx) = OK
          \<and> dispatched (ComputeInternal k ctx)
              = [dispatch_args k (tables ctx) (snd (staged_buffer k ctx)) (DataType x0)])"
  by (auto simp: ComputeInternal_staged Input_0 Let_def
      split: prod.splits list.splits sum.splits)

lemma failure_origin:
  assumes "result (ComputeInternal k ctx) = Failed e"
  shows "e = DeviceCopyError
       \<or> (\<exists>a. dispatched (ComputeInternal k ctx) = [a] \<and> DispatchFusedAllreduce k a = Inl e)"
proof -
  have 1: "staged_buffer k ctx = (Failed e, buf) \<Longrightarrow> e = DeviceCopyError" for buf
    using staged_buffer_status [of k ctx] by auto
  have 2: "for_loop (copy_out k ctx (tables ctx) reduced) [0..<InputCount ctx] Map.empty
             = (Failed e, outs) \<Longrightarrow> e = DeviceCopyError" for reduced outs
    using scatter_status [of k ctx reduced Map.empty] by auto
  show ?thesis
    using assms 1 2
    by (auto simp: ComputeInternal_staged Input_0 Let_def
        split: prod.splits list.splits sum.splits if_splits)
qed

lemma reducer_error:
  assumes "a \<in> set (dispatched (ComputeInternal k ctx))"
    and "DispatchFusedAllreduce k a = Inl e"
  shows "ComputeInternal k ctx = \<lparr>result = Failed e, outputs = Map.empty, dispatched = [a]\<rparr>"
  using assms
  by (auto simp: ComputeInternal_staged Input_0 Let_def
      split: prod.splits list.splits sum.splits if_splits)

lemma dispatch_happens:
  assumes "inputs ctx \<noteq> []" and "\<forall>x \<in> set (inputs ctx). tensor_ok x"
    and "\<not> (CUDA_CALL_aborts k \<and> (\<exists>i < InputCount ctx. cudaMemcpy_fails k cudaMemcpyDeviceToHost i))"
  shows "dispatched (ComputeInternal k ctx)
           = [dispatch_args k (tables ctx) (snd (staged_buffer k ctx)) (DataType (hd (inputs ctx)))]"
  using assms(1) staged_buffer_ok [OF assms(2,3)]
  by (auto simp: ComputeInternal_staged Input_0 Let_def
      split: prod.splits list.splits sum.splits if_splits)

section \<open>The start level\<close>

text \<open>
  Claim C4. Every reducer call the kernel makes carries the start level 1 unless the
  configured algorithm is \<open>GpuHierarchical\<close>, and then the size of the node-local
  data-parallel group. The kernel itself performs no node-local sum: in the graph that
  \<^verbatim>\<open>build_allreduce_graph\<close> builds for \<open>GpuHierarchical\<close>, a \<^verbatim>\<open>NcclAllReduce\<close> node of group
  type 2 (node local) comes first and its output is the input of the
  \<^verbatim>\<open>AdasumAllReduce\<close> node. The reducer call takes place, once, whenever there is an input,
  the tensors are well formed and no staging copy ends the call.
\<close>

theorem start_level_passed:
  "(\<forall>a \<in> set (dispatched (ComputeInternal k ctx)).
      start_level a =
        (if adasum_reduce_algo k = GpuHierarchical then GroupSize k NodeLocalDataParallel else 1))
   \<and> map op_type (build_allreduce_graph code n GpuHierarchical)
        = [''NcclAllReduce'', ''AdasumAllReduce'']
   \<and> attributes (build_allreduce_graph code n GpuHierarchical ! 0) = [(''group_type'', 2)]
   \<and> input_args (build_allreduce_graph code n GpuHierarchical ! 1)
        = output_args (build_allreduce_graph code n GpuHierarchical ! 0)
   \<and> (inputs ctx \<noteq> [] \<and> (\<forall>x \<in> set (inputs ctx). tensor_ok x)
        \<and> \<not> (CUDA_CALL_aborts k
              \<and> (\<exists>i < InputCount ctx. cudaMemcpy_fails k cudaMemcpyDeviceToHost i))
       \<longrightarrow> length (dispatched (ComputeInternal k ctx)) = 1)"
proof -
  have 1: "\<forall>a \<in> set (dispatched (ComputeInternal k ctx)).
      start_level a =
        (if adasum_reduce_algo k = GpuHierarchical then GroupSize k NodeLocalDataParallel else 1)"
    using dispatched_cases [of k ctx]
    by (auto simp: dispatch_args_def vhdd_start_level_def)
  have 2: "inputs ctx \<noteq> [] \<and> (\<forall>x \<in> set (inputs ctx). tensor_ok x)
        \<and> \<not> (CUDA_CALL_aborts k
              \<and> (\<exists>i < InputCount ctx. cudaMemcpy_fails k cudaMemcpyDeviceToHost i))
       \<longrightarrow> length (dispatched (ComputeInternal k ctx)) = 1"
    using dispatch_happens [of ctx k] by simp
  show ?thesis
    using 1 2 by (simp add: build_allreduce_graph_def Let_def)
qed

text \<open>
  The theorem at the test's tensor \<open>[4, 5, 6]\<close>, with a node-local group of size 2: the
  reducer is called, with start level 2 under \<open>GpuHierarchical\<close> and 1 under
  \<open>CpuReduction\<close>.
\<close>

theorem start_level_passed_witness:
  "tensor_ok G456
   \<and> map start_level (dispatched (ComputeInternal
       (test_kernel GpuHierarchical unchanged no_failure True) \<lparr>inputs = [G456]\<rparr>)) = [2]
   \<and> map start_level (dispatched (ComputeInternal
       (test_kernel CpuReduction unchanged no_failure True) \<lparr>inputs = [G456]\<rparr>)) = [1]"
proof -
  have ok: "tensor_ok G456"
    by (simp add: tensor_ok_def SizeInBytes_def Shape_Size_def G456_def)
  have 1: "length (dispatched (ComputeInternal (test_kernel algo unchanged no_failure True)
       \<lparr>inputs = [G456]\<rparr>)) = 1" for algo
    using ok start_level_passed [of "test_kernel algo unchanged no_failure True"
          "\<lparr>inputs = [G456]\<rparr>"]
    by (simp add: test_kernel_def no_failure_def)
  have 2: "length d = 1 \<Longrightarrow> \<forall>a \<in> set d. start_level a = n \<Longrightarrow> map start_level d = [n]"
    for d :: "(string, unit) reduce_args list" and n
    by (cases d) simp_all
  have g: "map start_level (dispatched (ComputeInternal
       (test_kernel GpuHierarchical unchanged no_failure True) \<lparr>inputs = [G456]\<rparr>)) = [2]"
    by (rule 2 [OF 1])
      (use start_level_passed [of "test_kernel GpuHierarchical unchanged no_failure True"
          "\<lparr>inputs = [G456]\<rparr>"] in \<open>simp add: test_kernel_def\<close>)
  have c: "map start_level (dispatched (ComputeInternal
       (test_kernel CpuReduction unchanged no_failure True) \<lparr>inputs = [G456]\<rparr>)) = [1]"
    by (rule 2 [OF 1])
      (use start_level_passed [of "test_kernel CpuReduction unchanged no_failure True"
          "\<lparr>inputs = [G456]\<rparr>"] in \<open>simp add: test_kernel_def\<close>)
  show ?thesis using ok g c by simp
qed

section \<open>Tag and communicator\<close>

text \<open>
  Claim C9. Every reducer call the kernel makes carries the tag 0 and the communicator of
  the \<open>GlobalParallel\<close> group, whatever the algorithm and the inputs; so the reducer calls
  of any two kernel invocations that share the MPI context agree in tag and communicator.
  The reducer call takes place, once, whenever there is an input, the tensors are well
  formed and no staging copy ends the call.
\<close>

theorem tag_and_communicator_fixed:
  "(\<forall>a \<in> set (dispatched (ComputeInternal k ctx)).
      tag a = 0 \<and> communicator a = GetMPIGroup_communicator k GlobalParallel)
   \<and> (GetMPIGroup_communicator k' = GetMPIGroup_communicator k \<longrightarrow>
       (\<forall>a \<in> set (dispatched (ComputeInternal k ctx)).
        \<forall>a' \<in> set (dispatched (ComputeInternal k' ctx')).
          tag a' = tag a \<and> communicator a' = communicator a))
   \<and> (inputs ctx \<noteq> [] \<and> (\<forall>x \<in> set (inputs ctx). tensor_ok x)
        \<and> \<not> (CUDA_CALL_aborts k
              \<and> (\<exists>i < InputCount ctx. cudaMemcpy_fails k cudaMemcpyDeviceToHost i))
       \<longrightarrow> length (dispatched (ComputeInternal k ctx)) = 1)"
proof -
  have 0: "inputs ctx \<noteq> [] \<and> (\<forall>x \<in> set (inputs ctx). tensor_ok x)
        \<and> \<not> (CUDA_CALL_aborts k
              \<and> (\<exists>i < InputCount ctx. cudaMemcpy_fails k cudaMemcpyDeviceToHost i))
       \<longrightarrow> length (dispatched (ComputeInternal k ctx)) = 1"
    using dispatch_happens [of ctx k] by simp
  have 1: "\<forall>a \<in> set (dispatched (ComputeInternal k ctx)).
      tag a = 0 \<and> communicator a = GetMPIGroup_communicator k GlobalParallel"
    using dispatched_cases [of k ctx] by (auto simp: dispatch_args_def)
  have 2: "\<forall>a \<in> set (dispatched (ComputeInternal k' ctx')).
      tag a = 0 \<and> communicator a = GetMPIGroup_communicator k' GlobalParallel"
    using dispatched_cases [of k' ctx'] by (auto simp: dispatch_args_def)
  show ?thesis using 0 1 2 by simp
qed

text \<open>
  Two invocations with different algorithms and different inputs: both call the reducer,
  with the same tag and the same communicator.
\<close>

theorem tag_and_communicator_fixed_witness:
  "tensor_ok G456 \<and> tensor_ok G789
   \<and> map (\<lambda>a. (tag a, communicator a)) (dispatched (ComputeInternal
       (test_kernel CpuReduction unchanged no_failure True) \<lparr>inputs = [G456]\<rparr>))
     = [(0, ''global'')]
   \<and> map (\<lambda>a. (tag a, communicator a)) (dispatched (ComputeInternal
       (test_kernel GpuHierarchical unchanged no_failure True) \<lparr>inputs = [G789, G456]\<rparr>))
     = [(0, ''global'')]"
proof -
  have ok: "tensor_ok G456" "tensor_ok G789"
    by (simp_all add: tensor_ok_def SizeInBytes_def Shape_Size_def G456_def G789_def)
  have 1: "length (dispatched (ComputeInternal (test_kernel CpuReduction unchanged no_failure True)
       \<lparr>inputs = [G456]\<rparr>)) = 1"
    using ok tag_and_communicator_fixed
      [where k = "test_kernel CpuReduction unchanged no_failure True"
          and ctx = "\<lparr>inputs = [G456]\<rparr>", THEN conjunct2, THEN conjunct2]
    by (simp add: test_kernel_def no_failure_def)
  have 2: "length (dispatched (ComputeInternal (test_kernel GpuHierarchical unchanged no_failure True)
       \<lparr>inputs = [G789, G456]\<rparr>)) = 1"
    using ok tag_and_communicator_fixed
      [where k = "test_kernel GpuHierarchical unchanged no_failure True"
          and ctx = "\<lparr>inputs = [G789, G456]\<rparr>", THEN conjunct2, THEN conjunct2]
    by (simp add: test_kernel_def no_failure_def)
  have 3: "length d = 1 \<Longrightarrow> \<forall>a \<in> set d. tag a = 0 \<and> communicator a = c
             \<Longrightarrow> map (\<lambda>a. (tag a, communicator a)) d = [(0, c)]"
    for d :: "(string, unit) reduce_args list" and c
    by (cases d) simp_all
  have a: "map (\<lambda>a. (tag a, communicator a)) (dispatched (ComputeInternal
       (test_kernel CpuReduction unchanged no_failure True) \<lparr>inputs = [G456]\<rparr>))
     = [(0, ''global'')]"
    by (rule 3 [OF 1])
      (use tag_and_communicator_fixed [where k = "test_kernel CpuReduction unchanged no_failure True"
          and ctx = "\<lparr>inputs = [G456]\<rparr>", THEN conjunct1] in \<open>simp add: test_kernel_def\<close>)
  have b: "map (\<lambda>a. (tag a, communicator a)) (dispatched (ComputeInternal
       (test_kernel GpuHierarchical unchanged no_failure True) \<lparr>inputs = [G789, G456]\<rparr>))
     = [(0, ''global'')]"
    by (rule 3 [OF 2])
      (use tag_and_communicator_fixed [where k = "test_kernel GpuHierarchical unchanged no_failure True"
          and ctx = "\<lparr>inputs = [G789, G456]\<rparr>", THEN conjunct1] in \<open>simp add: test_kernel_def\<close>)
  show ?thesis using ok a b by simp
qed


section \<open>Defined behaviour\<close>

lemma staged_buffer_defined:
  assumes "\<forall>x \<in> set (inputs ctx). tensor_ok x"
  shows "fst (staged_buffer k ctx) \<in> insert OK {Failed DeviceCopyError}
       \<and> length (snd (staged_buffer k ctx)) = total_recv_buffer_len (tables ctx)"
  unfolding staged_buffer_def
proof (rule for_loop_status
    [where P = "\<lambda>buf. length buf = total_recv_buffer_len (tables ctx)"])
  show "length (Alloc (total_recv_buffer_len (tables ctx))) = total_recv_buffer_len (tables ctx)"
    by (simp add: Alloc_def)
next
  fix i and buf :: "cell list"
  assume i: "i \<in> set [0..<InputCount ctx]"
    and len: "length buf = total_recv_buffer_len (tables ctx)"
  from i have lt: "i < length (inputs ctx)" by (simp add: InputCount_def)
  show "fst (copy_in k ctx (tables ctx) i buf) \<in> insert OK {Failed DeviceCopyError}
      \<and> length (snd (copy_in k ctx (tables ctx) i buf)) = total_recv_buffer_len (tables ctx)"
    by (rule copy_in_ok) (use lt len assms in auto)
qed

lemma copy_out_defined:
  assumes "i < length (inputs ctx)"
    and "length reduced = total_recv_buffer_len (tables ctx)"
  shows "fst (copy_out k ctx (tables ctx) reduced i outs) \<in> insert OK {Failed DeviceCopyError}"
  using assms region_in_buffer [of i "inputs ctx"]
  by (simp add: copy_out_def Input_def tables_def staged_at read_at_def write_at_def
      Alloc_def Let_def)

lemma scatter_defined:
  assumes "length reduced = total_recv_buffer_len (tables ctx)"
  shows "fst (for_loop (copy_out k ctx (tables ctx) reduced) [0..<InputCount ctx] outs)
     \<in> insert OK {Failed DeviceCopyError}"
proof -
  have "fst (for_loop (copy_out k ctx (tables ctx) reduced) [0..<InputCount ctx] outs)
      \<in> insert OK {Failed DeviceCopyError} \<and> True"
    by (rule for_loop_status)
      (use copy_out_defined assms in \<open>simp_all add: InputCount_def\<close>)
  then show ?thesis by simp
qed

lemma ComputeInternal_defined:
  assumes "inputs ctx \<noteq> []" and "\<forall>x \<in> set (inputs ctx). tensor_ok x" and "in_place k"
  shows "result (ComputeInternal k ctx) \<noteq> Undefined f"
proof -
  obtain st buf where sb: "staged_buffer k ctx = (st, buf)" by (cases "staged_buffer k ctx")
  have st: "st = OK \<or> st = Failed DeviceCopyError"
    and len: "length buf = total_recv_buffer_len (tables ctx)"
    using staged_buffer_defined [OF assms(2), of k] sb by auto
  obtain x0 rest where ts: "inputs ctx = x0 # rest" using assms(1) by (cases "inputs ctx") auto
  show ?thesis
  proof (cases "st = OK")
    case False
    then show ?thesis using st sb by (auto simp: ComputeInternal_staged)
  next
    case True
    let ?a = "dispatch_args k (tables ctx) buf (DataType x0)"
    show ?thesis
    proof (cases "DispatchFusedAllreduce k ?a")
      case (Inl e)
      then show ?thesis using True sb ts by (simp add: ComputeInternal_staged Input_0 Let_def)
    next
      case (Inr reduced)
      then have "length reduced = length (grad_buffer ?a)"
        using assms(3) by (auto simp: in_place_def)
      then have "length reduced = total_recv_buffer_len (tables ctx)"
        using len by (simp add: dispatch_args_def)
      then have "fst (for_loop (copy_out k ctx (tables ctx) reduced) [0..<InputCount ctx] Map.empty)
          \<in> insert OK {Failed DeviceCopyError}"
        by (rule scatter_defined)
      then show ?thesis using True sb ts Inr
        by (auto simp: ComputeInternal_staged Input_0 Let_def split: prod.splits)
    qed
  qed
qed

lemma ComputeInternal_indices:
  assumes "inputs ctx \<noteq> []"
  shows "result (ComputeInternal k ctx) \<noteq> Undefined NullTensor
       \<and> result (ComputeInternal k ctx) \<noteq> Undefined VectorIndex"
proof -
  have 1: "staged_buffer k ctx = (st, buf) \<Longrightarrow> st \<noteq> Undefined NullTensor \<and> st \<noteq> Undefined VectorIndex"
    for st buf
    using staged_buffer_status [of k ctx] by auto
  have 2: "for_loop (copy_out k ctx (tables ctx) reduced) [0..<InputCount ctx] Map.empty = (st, outs)
       \<Longrightarrow> st \<noteq> Undefined NullTensor \<and> st \<noteq> Undefined VectorIndex" for reduced st outs
    using scatter_status [of k ctx reduced Map.empty] by auto
  show ?thesis
    using assms 1 2
    by (auto simp: ComputeInternal_staged Input_0 Let_def
        split: prod.splits list.splits sum.splits if_splits)
qed

lemma ComputeInternal_no_inputs:
  assumes "inputs ctx = []"
  shows "ComputeInternal k ctx
           = \<lparr>result = Undefined NullTensor, outputs = Map.empty, dispatched = []\<rparr>"
  using assms by (simp add: kernel_eval)

text \<open>
  Claim C10. The kernel reads the element type of input 0 through a pointer it never
  tests: with no input tensor the call dereferences a null pointer. With at least one
  input, no tensor pointer read in the three loops or at the reducer call is null and no
  read of the offset and size vectors leaves them; and when moreover every tensor holds
  as many bytes as its shape and type say and the reducer works in place, no copy leaves
  its buffer, so the call has no undefined behaviour at all.
\<close>

theorem input_zero_unguarded:
  "(inputs ctx = [] \<longrightarrow>
      ComputeInternal k ctx
        = \<lparr>result = Undefined NullTensor, outputs = Map.empty, dispatched = []\<rparr>)
   \<and> (inputs ctx \<noteq> [] \<longrightarrow>
        result (ComputeInternal k ctx) \<noteq> Undefined NullTensor
        \<and> result (ComputeInternal k ctx) \<noteq> Undefined VectorIndex)
   \<and> (inputs ctx \<noteq> [] \<and> (\<forall>x \<in> set (inputs ctx). tensor_ok x) \<and> in_place k \<longrightarrow>
        (\<forall>f. result (ComputeInternal k ctx) \<noteq> Undefined f))"
  using ComputeInternal_no_inputs [of ctx k] ComputeInternal_indices [of ctx k]
    ComputeInternal_defined [of ctx k]
  by blast

text \<open>
  The empty request is undefined; the request of the two test tensors, which are well
  formed, with a reducer that works in place, is not.
\<close>

theorem input_zero_unguarded_witness:
  "result (ComputeInternal (test_kernel CpuReduction unchanged no_failure True) \<lparr>inputs = []\<rparr>)
     = Undefined NullTensor
   \<and> tensor_ok G456 \<and> tensor_ok G789
   \<and> in_place (test_kernel CpuReduction unchanged no_failure True)
   \<and> result (ComputeInternal (test_kernel CpuReduction unchanged no_failure True)
        \<lparr>inputs = [G456, G789]\<rparr>) \<noteq> Undefined NullTensor
   \<and> result (ComputeInternal (test_kernel CpuReduction unchanged no_failure True)
        \<lparr>inputs = [G456, G789]\<rparr>) \<noteq> Undefined VectorIndex
   \<and> result (ComputeInternal (test_kernel CpuReduction unchanged no_failure True)
        \<lparr>inputs = [G456, G789]\<rparr>) \<noteq> Undefined BufferRange"
proof -
  have ok: "tensor_ok G456" "tensor_ok G789"
    by (simp_all add: tensor_ok_def SizeInBytes_def Shape_Size_def G456_def G789_def)
  have ip: "in_place (test_kernel CpuReduction unchanged no_failure True)"
    by (simp add: in_place_def test_kernel_def unchanged_def)
  show ?thesis
    using ok ip
      input_zero_unguarded [of "\<lparr>inputs = []\<rparr>"
        "test_kernel CpuReduction unchanged no_failure True"]
      input_zero_unguarded [of "\<lparr>inputs = [G456, G789]\<rparr>"
        "test_kernel CpuReduction unchanged no_failure True"]
    by simp
qed


section \<open>The staging tables\<close>

lemma staged_total:
  "for_loop (record_tensor ctx) [0..<InputCount ctx] staging_init = (OK, tables ctx)
   \<and> tensor_sizes (tables ctx) = map SizeInBytes (inputs ctx)
   \<and> total_recv_buffer_len (tables ctx) = sum_list (map SizeInBytes (inputs ctx))
   \<and> tensor_element_counts (tables ctx) = map (\<lambda>x. to_int (Shape_Size x)) (inputs ctx)"
  by (simp add: record_loop InputCount_def tables_def staged_def)

lemma offsets_packed_up_to_two:
  assumes "length (inputs ctx) \<le> 2"
  shows "tensor_offsets (tables ctx) = packed_offsets (tensor_sizes (tables ctx))"
proof -
  have "i < length (inputs ctx) \<Longrightarrow>
      (if i = 0 then 0 else SizeInBytes (inputs ctx ! (i - 1)))
        = sum_list (take i (map SizeInBytes (inputs ctx)))" for i
  proof -
    assume i: "i < length (inputs ctx)"
    then have "i = 0 \<or> i = 1" using assms by auto
    then show ?thesis
    proof
      assume "i = 0" then show ?thesis by simp
    next
      assume 1: "i = 1"
      then obtain x rest where "inputs ctx = x # rest" using i by (cases "inputs ctx") auto
      then show ?thesis using 1 by simp
    qed
  qed
  then show ?thesis
    by (simp add: tables_def staged_def packed_offsets_def)
qed

text \<open>
  Claim C2, at three float tensors of one, two and one element (4, 8 and 4 bytes). The
  buffer has the 16 bytes of the three tensors, but the first loop records the offsets
  0, 4, 8 where the packed layout has 0, 4, 12: each offset is the size of the tensor
  before, not the sum of the sizes before. So the third tensor is staged over the second
  half of the second, the last four bytes of the buffer are never written, and with a
  reducer that leaves the buffer unchanged output 1 is the first element of the second
  tensor followed by the third tensor.
\<close>

theorem offsets_of_three_tensors:
  "for_loop (record_tensor \<lparr>inputs = [T4, T56, T7]\<rparr>)
       [0..<InputCount \<lparr>inputs = [T4, T56, T7]\<rparr>] staging_init
     = (OK, \<lparr>tensor_element_counts = [1, 2, 1], tensor_offsets = [0, 4, 8],
             tensor_sizes = [4, 8, 4], total_recv_buffer_len = 16, size_in_bytes = 4\<rparr>)
   \<and> packed_offsets [4, 8, 4] = [0, 4, 12]
   \<and> map grad_buffer (dispatched (ComputeInternal
        (test_kernel CpuReduction unchanged no_failure True) \<lparr>inputs = [T4, T56, T7]\<rparr>))
      = [map Some (DataRaw T4 @ take 4 (DataRaw T56) @ DataRaw T7) @ replicate 4 None]
   \<and> outputs (ComputeInternal
        (test_kernel CpuReduction unchanged no_failure True) \<lparr>inputs = [T4, T56, T7]\<rparr>) 1
      = Some (map Some (take 4 (DataRaw T56) @ DataRaw T7))"
proof -
  have 1: "for_loop (record_tensor \<lparr>inputs = [T4, T56, T7]\<rparr>)
       [0..<InputCount \<lparr>inputs = [T4, T56, T7]\<rparr>] staging_init
     = (OK, \<lparr>tensor_element_counts = [1, 2, 1], tensor_offsets = [0, 4, 8],
             tensor_sizes = [4, 8, 4], total_recv_buffer_len = 16, size_in_bytes = 4\<rparr>)"
    by (simp add: kernel_eval test_data T4_def T56_def T7_def)
  have 2: "packed_offsets [4, 8, 4] = [0, 4, 12]"
    by (simp add: packed_offsets_def upt_rec)
  have 3: "map grad_buffer (dispatched (ComputeInternal
        (test_kernel CpuReduction unchanged no_failure True) \<lparr>inputs = [T4, T56, T7]\<rparr>))
      = [map Some (DataRaw T4 @ take 4 (DataRaw T56) @ DataRaw T7) @ replicate 4 None]"
    by (simp add: kernel_eval test_data T4_def T56_def T7_def)
  have 4: "outputs (ComputeInternal
        (test_kernel CpuReduction unchanged no_failure True) \<lparr>inputs = [T4, T56, T7]\<rparr>) 1
      = Some (map Some (take 4 (DataRaw T56) @ DataRaw T7))"
    by (simp add: kernel_eval test_data T4_def T56_def T7_def)
  show ?thesis using 1 2 3 4 by simp
qed


section \<open>Errors\<close>



lemma reducer_success:
  assumes "inputs ctx \<noteq> []" and "\<forall>x \<in> set (inputs ctx). tensor_ok x" and "in_place k"
    and "\<forall>d i. \<not> cudaMemcpy_fails k d i"
    and "a \<in> set (dispatched (ComputeInternal k ctx))"
    and "DispatchFusedAllreduce k a = Inr reduced"
  shows "ComputeInternal k ctx =
           \<lparr>result = OK,
            outputs = (\<lambda>i. if i < InputCount ctx then Some (region ctx reduced i) else None),
            dispatched = [a]\<rparr>"
proof -
  have sb: "fst (staged_buffer k ctx) = OK"
    and len: "length (snd (staged_buffer k ctx)) = total_recv_buffer_len (tables ctx)"
    using staged_buffer_ok [of ctx k] assms(2,4) by auto
  have d: "dispatched (ComputeInternal k ctx)
      = [dispatch_args k (tables ctx) (snd (staged_buffer k ctx)) (DataType (hd (inputs ctx)))]"
    by (rule dispatch_happens) (use assms in auto)
  then have a: "a = dispatch_args k (tables ctx) (snd (staged_buffer k ctx)) (DataType (hd (inputs ctx)))"
    using assms(5) by simp
  have "length reduced = length (grad_buffer a)"
    using assms(3,6) by (auto simp: in_place_def)
  then have "length reduced = total_recv_buffer_len (tables ctx)"
    using a len by (simp add: dispatch_args_def)
  then have sc: "for_loop (copy_out k ctx (tables ctx) reduced) [0..<InputCount ctx] Map.empty
      = (OK, \<lambda>i. if i < InputCount ctx then Some (region ctx reduced i) else None)"
    by (rule scatter_ok) (use assms(4) in auto)
  obtain x0 rest where ts: "inputs ctx = x0 # rest" using assms(1) by (cases "inputs ctx") auto
  obtain buf where buf: "staged_buffer k ctx = (OK, buf)"
    using sb by (cases "staged_buffer k ctx") auto
  show ?thesis
    using ts buf a assms(6) sc
    by (simp add: ComputeInternal_staged Input_0 Let_def)
qed


lemma region_packed:
  assumes "length (inputs ctx) \<le> 2"
  shows "region ctx buf i = packed_region ctx buf i"
  using offsets_packed_up_to_two [OF assms] staged_total [of ctx]
  by (simp add: region_def packed_region_def)

lemma staged_packed:
  assumes "length (inputs ctx) \<le> 2" and "\<forall>x \<in> set (inputs ctx). tensor_ok x"
    and "\<forall>i. \<not> cudaMemcpy_fails k cudaMemcpyDeviceToHost i"
  shows "staged_buffer k ctx = (OK, packed_inputs ctx)"
proof -
  consider "inputs ctx = []" | x where "inputs ctx = [x]" | x y where "inputs ctx = [x, y]"
    using assms(1)
    by (cases "inputs ctx"; cases "tl (inputs ctx)"; cases "tl (tl (inputs ctx))") auto
  then show ?thesis
  proof cases
    case 1
    then show ?thesis
      by (simp add: staged_buffer_def tables_def staged_def InputCount_def Alloc_def packed_inputs_def)
  next
    case 2
    then have "length (DataRaw x) = SizeInBytes x" using assms(2) by (simp add: tensor_ok_def)
    then show ?thesis using 2 assms(3)
      by (simp add: staged_buffer_def tables_def staged_def InputCount_def Alloc_def
          packed_inputs_def copy_in_def Input_def vec_at_def read_tensor_def write_at_def upt_rec)
  next
    case 3
    then have "length (DataRaw x) = SizeInBytes x" "length (DataRaw y) = SizeInBytes y"
      using assms(2) by (simp_all add: tensor_ok_def)
    then show ?thesis using 3 assms(3)
      by (simp add: staged_buffer_def tables_def staged_def InputCount_def Alloc_def
          packed_inputs_def copy_in_def Input_def vec_at_def read_tensor_def write_at_def upt_rec)
  qed
qed

lemma dispatch_staged:
  assumes "inputs ctx \<noteq> []" and "\<forall>x \<in> set (inputs ctx). tensor_ok x"
    and "\<not> (CUDA_CALL_aborts k \<and> (\<exists>i < InputCount ctx. cudaMemcpy_fails k cudaMemcpyDeviceToHost i))"
  shows "\<exists>a. dispatched (ComputeInternal k ctx) = [a]
           \<and> data_type a = DataType (hd (inputs ctx))
           \<and> grad_buffer a = snd (staged_buffer k ctx)
           \<and> length (grad_buffer a) = sum_list (map SizeInBytes (inputs ctx))"
  using dispatch_happens [OF assms] staged_buffer_ok [OF assms(2,3)] staged_total [of ctx]
  by (simp add: dispatch_args_def)

lemma small_request:
  assumes "inputs ctx \<noteq> []" and "length (inputs ctx) \<le> 2"
    and "\<forall>x \<in> set (inputs ctx). tensor_ok x" and "in_place k"
    and "\<forall>d i. \<not> cudaMemcpy_fails k d i"
  shows "\<exists>a. dispatched (ComputeInternal k ctx) = [a]
           \<and> grad_buffer a = packed_inputs ctx
           \<and> (\<forall>reduced. DispatchFusedAllreduce k a = Inr reduced \<longrightarrow>
                 result (ComputeInternal k ctx) = OK
                 \<and> outputs (ComputeInternal k ctx)
                     = (\<lambda>i. if i < InputCount ctx then Some (packed_region ctx reduced i) else None))"
proof -
  obtain a where a: "dispatched (ComputeInternal k ctx) = [a]"
    and g: "grad_buffer a = snd (staged_buffer k ctx)"
    using dispatch_staged [of ctx k] assms by auto
  have p: "grad_buffer a = packed_inputs ctx"
    using g staged_packed [of ctx k] assms by simp
  have "result (ComputeInternal k ctx) = OK
      \<and> outputs (ComputeInternal k ctx)
          = (\<lambda>i. if i < InputCount ctx then Some (packed_region ctx reduced i) else None)"
    if "DispatchFusedAllreduce k a = Inr reduced" for reduced
  proof -
    have "ComputeInternal k ctx =
           \<lparr>result = OK,
            outputs = (\<lambda>i. if i < InputCount ctx then Some (region ctx reduced i) else None),
            dispatched = [a]\<rparr>"
      by (rule reducer_success) (use assms a that in auto)
    then show ?thesis by (simp add: region_packed [OF assms(2)] cong: if_cong)
  qed
  then show ?thesis using a p by blast
qed






section \<open>Tensor counts and element types\<close>

lemma dispatched_counts:
  assumes "a \<in> set (dispatched (ComputeInternal k ctx))"
  shows "tensor_counts a = map (\<lambda>x. to_int (Shape_Size x)) (inputs ctx)
       \<and> (\<exists>x0 rest. inputs ctx = x0 # rest \<and> data_type a = DataType x0)"
  using assms dispatched_cases [of k ctx]
  by (auto simp: dispatch_args_def tables_def staged_def)

text \<open>
  Claim C5 says that a disagreement on the tensors is found locally, before any exchange.
  In the test, rank 0 holds one tensor and rank 1 holds two. The kernel on rank 0 sees
  only its own inputs: it stages them and calls the reducer with its own element counts.
  With a reducer that reports the mismatch the call fails, but after the reducer was
  called; with a reducer that reports nothing the call succeeds.
\<close>

theorem count_mismatch_reaches_reducer:
  "length [G456] \<noteq> length [G789, G456]
   \<and> ComputeInternal (test_kernel CpuReduction (reports ElementCountMismatch) no_failure True)
        \<lparr>inputs = [G456]\<rparr>
     = \<lparr>result = Failed ElementCountMismatch, outputs = Map.empty,
        dispatched = [\<lparr>grad_buffer = map Some (DataRaw G456), recv_buffer = replicate 12 None,
          tensor_counts = [3], start_level = 1, communicator = ''global'', tag = 0,
          reduction_comms = (), data_type = FLOAT\<rparr>]\<rparr>
   \<and> result (ComputeInternal (test_kernel CpuReduction unchanged no_failure True)
        \<lparr>inputs = [G456]\<rparr>) = OK
   \<and> outputs (ComputeInternal (test_kernel CpuReduction unchanged no_failure True)
        \<lparr>inputs = [G456]\<rparr>) 0 = Some (map Some (DataRaw G456))"
  by (simp add: kernel_eval test_data)

text \<open>
  Claim C5 as amended. The kernel compares no counts. Whenever there is an input, the
  tensors are well formed and no staging copy ends the call, it calls the reducer once,
  with the element counts of its own inputs, and an error of the reducer becomes the
  status of the call, with no output. A status \<open>TensorCountMismatch\<close> or
  \<open>ElementCountMismatch\<close> is always the reducer's.
\<close>

theorem count_mismatch_left_to_reducer:
  "(inputs ctx \<noteq> [] \<and> (\<forall>x \<in> set (inputs ctx). tensor_ok x)
      \<and> \<not> (CUDA_CALL_aborts k \<and> (\<exists>i < InputCount ctx. cudaMemcpy_fails k cudaMemcpyDeviceToHost i))
     \<longrightarrow> (\<exists>a. dispatched (ComputeInternal k ctx) = [a]
            \<and> tensor_counts a = map (\<lambda>x. to_int (Shape_Size x)) (inputs ctx)
            \<and> (\<forall>e. DispatchFusedAllreduce k a = Inl e \<longrightarrow>
                  result (ComputeInternal k ctx) = Failed e
                  \<and> outputs (ComputeInternal k ctx) = Map.empty)))
   \<and> (result (ComputeInternal k ctx) = Failed TensorCountMismatch
        \<or> result (ComputeInternal k ctx) = Failed ElementCountMismatch
     \<longrightarrow> (\<exists>a e. dispatched (ComputeInternal k ctx) = [a]
            \<and> DispatchFusedAllreduce k a = Inl e
            \<and> result (ComputeInternal k ctx) = Failed e))"
proof -
  have 1: "\<exists>a. dispatched (ComputeInternal k ctx) = [a]
            \<and> tensor_counts a = map (\<lambda>x. to_int (Shape_Size x)) (inputs ctx)
            \<and> (\<forall>e. DispatchFusedAllreduce k a = Inl e \<longrightarrow>
                  result (ComputeInternal k ctx) = Failed e
                  \<and> outputs (ComputeInternal k ctx) = Map.empty)"
    if h: "inputs ctx \<noteq> []" "\<forall>x \<in> set (inputs ctx). tensor_ok x"
      "\<not> (CUDA_CALL_aborts k \<and> (\<exists>i < InputCount ctx. cudaMemcpy_fails k cudaMemcpyDeviceToHost i))"
  proof -
    obtain a where a: "dispatched (ComputeInternal k ctx) = [a]"
      using dispatch_happens [OF h] by blast
    then have in_d: "a \<in> set (dispatched (ComputeInternal k ctx))" by simp
    have c: "tensor_counts a = map (\<lambda>x. to_int (Shape_Size x)) (inputs ctx)"
      using dispatched_counts [OF in_d] by simp
    have "result (ComputeInternal k ctx) = Failed e \<and> outputs (ComputeInternal k ctx) = Map.empty"
      if "DispatchFusedAllreduce k a = Inl e" for e
      using reducer_error [OF in_d that] by simp
    then show ?thesis using a c by blast
  qed
  have 2: "\<exists>a e. dispatched (ComputeInternal k ctx) = [a]
            \<and> DispatchFusedAllreduce k a = Inl e
            \<and> result (ComputeInternal k ctx) = Failed e"
    if "result (ComputeInternal k ctx) = Failed TensorCountMismatch
        \<or> result (ComputeInternal k ctx) = Failed ElementCountMismatch"
    using that failure_origin [of k ctx] by auto
  show ?thesis using 1 2 by blast
qed

text \<open>Rank 0 of the test, with a reducer that reports the mismatch.\<close>

theorem count_mismatch_left_to_reducer_witness:
  "tensor_ok G456
   \<and> map tensor_counts (dispatched (ComputeInternal
        (test_kernel CpuReduction (reports ElementCountMismatch) no_failure True)
        \<lparr>inputs = [G456]\<rparr>)) = [[3]]
   \<and> result (ComputeInternal
        (test_kernel CpuReduction (reports ElementCountMismatch) no_failure True)
        \<lparr>inputs = [G456]\<rparr>) = Failed ElementCountMismatch
   \<and> outputs (ComputeInternal
        (test_kernel CpuReduction (reports ElementCountMismatch) no_failure True)
        \<lparr>inputs = [G456]\<rparr>) = Map.empty"
proof -
  let ?k = "test_kernel CpuReduction (reports ElementCountMismatch) no_failure True"
  let ?ctx = "\<lparr>inputs = [G456]\<rparr>"
  have ok: "tensor_ok G456"
    by (simp add: tensor_ok_def SizeInBytes_def Shape_Size_def G456_def)
  have nf: "\<not> (CUDA_CALL_aborts ?k \<and> (\<exists>i < InputCount ?ctx. cudaMemcpy_fails ?k cudaMemcpyDeviceToHost i))"
    by (simp add: test_kernel_def no_failure_def)
  obtain a where a: "dispatched (ComputeInternal ?k ?ctx) = [a]"
    and c: "tensor_counts a = map (\<lambda>x. to_int (Shape_Size x)) (inputs ?ctx)"
    and e: "\<forall>e. DispatchFusedAllreduce ?k a = Inl e \<longrightarrow>
                  result (ComputeInternal ?k ?ctx) = Failed e
                  \<and> outputs (ComputeInternal ?k ?ctx) = Map.empty"
    using count_mismatch_left_to_reducer [of ?ctx ?k, THEN conjunct1] ok nf by auto
  have r: "DispatchFusedAllreduce ?k a = Inl ElementCountMismatch"
    by (simp add: test_kernel_def reports_def)
  have c3: "tensor_counts a = [3]"
    using c by (simp add: to_int_def Shape_Size_def G456_def)
  show ?thesis using ok a c3 e r by simp
qed

text \<open>
  Claim C8 says that a call on an element kind other than 32-bit and 16-bit float fails
  with \<open>UnsupportedTypeError\<close>. \<^verbatim>\<open>ComputeInternal\<close> on a tensor of one 64-bit float, with a
  reducer that succeeds, returns OK and writes the output.
\<close>

theorem double_tensor_reduced:
  "DataType D1 \<noteq> FLOAT \<and> DataType D1 \<noteq> FLOAT16
   \<and> ComputeInternal (test_kernel CpuReduction unchanged no_failure True) \<lparr>inputs = [D1]\<rparr>
     = \<lparr>result = OK, outputs = [0 \<mapsto> map Some (DataRaw D1)],
        dispatched = [\<lparr>grad_buffer = map Some (DataRaw D1), recv_buffer = replicate 8 None,
          tensor_counts = [1], start_level = 1, communicator = ''global'', tag = 0,
          reduction_comms = (), data_type = DOUBLE\<rparr>]\<rparr>"
  by (simp add: kernel_eval test_data D1_def)

text \<open>
  Claim C8 as amended. \<^verbatim>\<open>ComputeInternal\<close> tests no element kind. Every reducer call
  carries the element type of input 0. Whatever the element kinds of the inputs, when
  there is an input, the tensors are well formed and no staging copy ends the call, the
  reducer is called once, with a buffer of the total byte size of the inputs and with
  the element type of input 0; for one or two tensors with no failing copy and a reducer
  that works in place, that buffer holds the packed bytes of the inputs, and when the
  reducer succeeds the call returns OK with the part of every tensor written to its
  output. The call ends in \<open>UnsupportedTypeError\<close> only when the reducer returned it.
\<close>

theorem element_type_forwarded:
  "(\<forall>a \<in> set (dispatched (ComputeInternal k ctx)).
      \<exists>x0 rest. inputs ctx = x0 # rest \<and> data_type a = DataType x0)
   \<and> (inputs ctx \<noteq> [] \<and> (\<forall>x \<in> set (inputs ctx). tensor_ok x)
        \<and> \<not> (CUDA_CALL_aborts k
              \<and> (\<exists>i < InputCount ctx. cudaMemcpy_fails k cudaMemcpyDeviceToHost i))
       \<longrightarrow> (\<exists>a. dispatched (ComputeInternal k ctx) = [a]
              \<and> data_type a = DataType (hd (inputs ctx))
              \<and> length (grad_buffer a) = sum_list (map SizeInBytes (inputs ctx))))
   \<and> (inputs ctx \<noteq> [] \<and> length (inputs ctx) \<le> 2 \<and> (\<forall>x \<in> set (inputs ctx). tensor_ok x)
        \<and> in_place k \<and> (\<forall>d i. \<not> cudaMemcpy_fails k d i)
       \<longrightarrow> (\<exists>a. dispatched (ComputeInternal k ctx) = [a]
              \<and> grad_buffer a = packed_inputs ctx
              \<and> (\<forall>reduced. DispatchFusedAllreduce k a = Inr reduced \<longrightarrow>
                    result (ComputeInternal k ctx) = OK
                    \<and> outputs (ComputeInternal k ctx)
                        = (\<lambda>i. if i < InputCount ctx
                                then Some (packed_region ctx reduced i) else None))))
   \<and> (result (ComputeInternal k ctx) = Failed UnsupportedTypeError \<longrightarrow>
       (\<exists>a. dispatched (ComputeInternal k ctx) = [a]
          \<and> DispatchFusedAllreduce k a = Inl UnsupportedTypeError))"
proof -
  have 1: "\<forall>a \<in> set (dispatched (ComputeInternal k ctx)).
      \<exists>x0 rest. inputs ctx = x0 # rest \<and> data_type a = DataType x0"
    using dispatched_counts [of _ k ctx] by blast
  have 2: "inputs ctx \<noteq> [] \<and> (\<forall>x \<in> set (inputs ctx). tensor_ok x)
        \<and> \<not> (CUDA_CALL_aborts k
              \<and> (\<exists>i < InputCount ctx. cudaMemcpy_fails k cudaMemcpyDeviceToHost i))
       \<longrightarrow> (\<exists>a. dispatched (ComputeInternal k ctx) = [a]
              \<and> data_type a = DataType (hd (inputs ctx))
              \<and> length (grad_buffer a) = sum_list (map SizeInBytes (inputs ctx)))"
    using dispatch_staged [of ctx k] by blast
  have 3: "inputs ctx \<noteq> [] \<and> length (inputs ctx) \<le> 2 \<and> (\<forall>x \<in> set (inputs ctx). tensor_ok x)
        \<and> in_place k \<and> (\<forall>d i. \<not> cudaMemcpy_fails k d i)
       \<longrightarrow> (\<exists>a. dispatched (ComputeInternal k ctx) = [a]
              \<and> grad_buffer a = packed_inputs ctx
              \<and> (\<forall>reduced. DispatchFusedAllreduce k a = Inr reduced \<longrightarrow>
                    result (ComputeInternal k ctx) = OK
                    \<and> outputs (ComputeInternal k ctx)
                        = (\<lambda>i. if i < InputCount ctx
                                then Some (packed_region ctx reduced i) else None)))"
    using small_request [of ctx k] by blast
  have 4: "result (ComputeInternal k ctx) = Failed UnsupportedTypeError \<longrightarrow>
       (\<exists>a. dispatched (ComputeInternal k ctx) = [a]
          \<and> DispatchFusedAllreduce k a = Inl UnsupportedTypeError)"
    using failure_origin [of k ctx UnsupportedTypeError] by auto
  show ?thesis using 1 2 3 4 by blast
qed

text \<open>
  A tensor of one 64-bit float: with a reducer that rejects the element type, and with
  one that succeeds.
\<close>

theorem element_type_forwarded_witness:
  "tensor_ok D1
   \<and> in_place (test_kernel CpuReduction unchanged no_failure True)
   \<and> result (ComputeInternal (test_kernel CpuReduction (reports UnsupportedTypeError) no_failure True)
       \<lparr>inputs = [D1]\<rparr>) = Failed UnsupportedTypeError
   \<and> map data_type (dispatched (ComputeInternal
       (test_kernel CpuReduction (reports UnsupportedTypeError) no_failure True)
       \<lparr>inputs = [D1]\<rparr>)) = [DOUBLE]
   \<and> map (\<lambda>a. length (grad_buffer a)) (dispatched (ComputeInternal
       (test_kernel CpuReduction (reports UnsupportedTypeError) no_failure True)
       \<lparr>inputs = [D1]\<rparr>)) = [8]
   \<and> map grad_buffer (dispatched (ComputeInternal
       (test_kernel CpuReduction unchanged no_failure True) \<lparr>inputs = [D1]\<rparr>))
      = [map Some (DataRaw D1)]
   \<and> result (ComputeInternal (test_kernel CpuReduction unchanged no_failure True)
       \<lparr>inputs = [D1]\<rparr>) = OK
   \<and> map (outputs (ComputeInternal (test_kernel CpuReduction unchanged no_failure True)
       \<lparr>inputs = [D1]\<rparr>)) [0, 1] = [Some (map Some (DataRaw D1)), None]"
proof -
  let ?kr = "test_kernel CpuReduction (reports UnsupportedTypeError) no_failure True"
  let ?k = "test_kernel CpuReduction unchanged no_failure True"
  let ?ctx = "\<lparr>inputs = [D1]\<rparr>"
  have ok: "tensor_ok D1"
    by (simp add: tensor_ok_def SizeInBytes_def Shape_Size_def D1_def)
  have ip: "in_place ?k"
    by (simp add: in_place_def test_kernel_def unchanged_def)
  have nf: "\<not> (CUDA_CALL_aborts ?kr
      \<and> (\<exists>i < InputCount ?ctx. cudaMemcpy_fails ?kr cudaMemcpyDeviceToHost i))"
    "\<forall>d i. \<not> cudaMemcpy_fails ?k d i"
    by (simp_all add: test_kernel_def no_failure_def)
  obtain a where a: "dispatched (ComputeInternal ?kr ?ctx) = [a]"
    and t: "data_type a = DataType (hd (inputs ?ctx))"
    and l: "length (grad_buffer a) = sum_list (map SizeInBytes (inputs ?ctx))"
    using element_type_forwarded [of ?kr ?ctx] ok nf(1) by auto
  have "DispatchFusedAllreduce ?kr a = Inl UnsupportedTypeError"
    by (simp add: test_kernel_def reports_def)
  then have r: "result (ComputeInternal ?kr ?ctx) = Failed UnsupportedTypeError"
    using reducer_error [of a ?kr ?ctx] a by simp
  have t': "data_type a = DOUBLE" using t by (simp add: D1_def)
  have l': "length (grad_buffer a) = 8"
    using l by (simp add: SizeInBytes_def Shape_Size_def D1_def)
  obtain b where b: "dispatched (ComputeInternal ?k ?ctx) = [b]"
    and g: "grad_buffer b = packed_inputs ?ctx"
    and s: "\<forall>reduced. DispatchFusedAllreduce ?k b = Inr reduced \<longrightarrow>
              result (ComputeInternal ?k ?ctx) = OK
              \<and> outputs (ComputeInternal ?k ?ctx)
                  = (\<lambda>i. if i < InputCount ?ctx
                          then Some (packed_region ?ctx reduced i) else None)"
    using element_type_forwarded [of ?k ?ctx] ok ip nf(2) by auto
  have "DispatchFusedAllreduce ?k b = Inr (packed_inputs ?ctx)"
    using g by (simp add: test_kernel_def unchanged_def)
  then have r2: "result (ComputeInternal ?k ?ctx) = OK"
    and o: "outputs (ComputeInternal ?k ?ctx)
        = (\<lambda>i. if i < InputCount ?ctx
                then Some (packed_region ?ctx (packed_inputs ?ctx) i) else None)"
    using s by auto
  have o2: "map (outputs (ComputeInternal ?k ?ctx)) [0, 1] = [Some (map Some (DataRaw D1)), None]"
    unfolding o
    by (simp add: InputCount_def packed_region_def packed_inputs_def packed_offsets_def
        SizeInBytes_def Shape_Size_def upt_rec D1_def)
  have gb: "map grad_buffer (dispatched (ComputeInternal ?k ?ctx)) = [map Some (DataRaw D1)]"
    using b g by (simp add: packed_inputs_def)
  show ?thesis using ok ip r a t' l' gb r2 o2 by simp
qed

text \<open>
  The registration lets through the element kinds of
  \<^verbatim>\<open>DataTypeImpl::AllIEEEFloatTensorTypes()\<close>, whatever that list holds.
\<close>

lemma registration_accepts:
  "accepts (AdasumAllReduce_kernel AllIEEEFloatTensorTypes) t = (t \<in> set AllIEEEFloatTensorTypes)"
  by (simp add: accepts_def AdasumAllReduce_kernel_def)

section \<open>The Adasum combination\<close>

lemma dot_and_norms_eq:
  "length a = length b \<Longrightarrow>
     dot_and_norms a b (x, y, z) = (x + dot a b, y + dot a a, z + dot b b)"
  by (induction a b arbitrary: x y z rule: list_induct2) (simp_all add: dot_def)

lemma dot_and_norms_swap:
  "dot_and_norms b a (x, z, y) = (case dot_and_norms a b (x, y, z) of (ab, aa, bb) \<Rightarrow> (ab, bb, aa))"
proof (induction a arbitrary: b x y z)
  case Nil
  then show ?case by (cases b) simp_all
next
  case (Cons u a)
  then show ?case by (cases b) (simp_all add: mult.commute)
qed

lemma map2_swap: "map2 f a b = map2 (\<lambda>y x. f x y) b a"
proof (induction a arbitrary: b)
  case Nil
  then show ?case by simp
next
  case (Cons u a)
  then show ?case by (cases b) simp_all
qed

lemma weighted_sum: "map2 (\<lambda>x y. c * x + d * y) a b = vadd (scale c a) (scale d b)"
  by (simp add: vadd_def scale_def zip_map_map case_prod_unfold)

lemma adasum_combine_formula:
  assumes "length a = length b"
  shows "adasum_combine a b =
      (if dot a a \<noteq> 0 \<and> dot b b \<noteq> 0
       then vadd (scale (1 - dot a b / (2 * dot a a)) a) (scale (1 - dot a b / (2 * dot b b)) b)
       else vadd a b)"
  using assms by (simp add: adasum_combine_def dot_and_norms_eq weighted_sum) (simp add: vadd_def)

lemma adasum_combine_commute: "adasum_combine a b = adasum_combine b a"
proof -
  obtain ab aa bb where d: "dot_and_norms a b (0, 0, 0) = (ab, aa, bb)"
    by (cases "dot_and_norms a b (0, 0, 0)") auto
  then have d': "dot_and_norms b a (0, 0, 0) = (ab, bb, aa)"
    using dot_and_norms_swap [of b a 0 0 0] by simp
  have 1: "map2 (\<lambda>x y. c * x + e * y) a b = map2 (\<lambda>x y. e * x + c * y) b a" for c e :: real
    by (subst map2_swap) (simp add: add.commute)
  have 2: "map2 (\<lambda>x y. x + y) a b = map2 (\<lambda>x y. x + y) b a"
    by (subst map2_swap) (simp add: add.commute)
  show ?thesis
    using 1 2 by (auto simp add: adasum_combine_def d d')
qed

text \<open>
  The same combination at the inputs of the two other Adasum tests of
  \<^verbatim>\<open>allreduce_op_test.cc\<close> (\<^verbatim>\<open>GPUAdasumAllreduceTest\<close> and the 16-bit test), within
  \<open>10\<^sup>-\<^sup>4\<close> of the values the tests expect.
\<close>

lemma adasum_matches_other_tests:
  "near (1 / 10000) (adasum_combine [4, 5, 6, 7] [8, 9, 10, 11]) [6.2643, 7.1228, 7.9812, 8.8397]
   \<and> near (1 / 10000) (adasum_combine [5.6301, 6.5235, 7.4169] [7, 8, 9]) [6.32478, 7.2628, 8.2009]"
  by (simp add: adasum_combine_def near_def)

text \<open>
  Claim C1. For vectors \<open>a\<close> (local) and \<open>b\<close> (received) of the same length, the
  combination is \<open>(1 - (a\<cdot>b)/(2\<parallel>a\<parallel>\<^sup>2))\<cdot>a + (1 - (a\<cdot>b)/(2\<parallel>b\<parallel>\<^sup>2))\<cdot>b\<close> when both squared norms
  are non-zero, and \<open>a + b\<close> when one of them is zero. With two ranks holding
  \<open>[4, 5, 6]\<close> and \<open>[7, 8, 9]\<close>, both ranks obtain the same vector, which lies within
  \<open>10\<^sup>-\<^sup>4\<close> of \<open>[5.6301, 6.5235, 7.4169]\<close>.
\<close>

theorem adasum_pairwise_combination:
  "(length a = length b \<longrightarrow>
      (dot a a \<noteq> 0 \<and> dot b b \<noteq> 0 \<longrightarrow>
         adasum_combine a b =
           vadd (scale (1 - dot a b / (2 * dot a a)) a) (scale (1 - dot a b / (2 * dot b b)) b))
      \<and> (dot a a = 0 \<or> dot b b = 0 \<longrightarrow> adasum_combine a b = vadd a b))
   \<and> adasum_world2 [[4, 5, 6]] [[7, 8, 9]]
       = ([[84103 / 14938, 48724 / 7469, 110793 / 14938]],
          [[84103 / 14938, 48724 / 7469, 110793 / 14938]])
   \<and> near (1 / 10000) [84103 / 14938, 48724 / 7469, 110793 / 14938] [5.6301, 6.5235, 7.4169]"
proof -
  have 1: "length a = length b \<longrightarrow>
      (dot a a \<noteq> 0 \<and> dot b b \<noteq> 0 \<longrightarrow>
         adasum_combine a b =
           vadd (scale (1 - dot a b / (2 * dot a a)) a) (scale (1 - dot a b / (2 * dot b b)) b))
      \<and> (dot a a = 0 \<or> dot b b = 0 \<longrightarrow> adasum_combine a b = vadd a b)"
    using adasum_combine_formula [of a b] by auto
  have 2: "adasum_world2 [[4, 5, 6]] [[7, 8, 9]]
       = ([[84103 / 14938, 48724 / 7469, 110793 / 14938]],
          [[84103 / 14938, 48724 / 7469, 110793 / 14938]])"
    by (simp add: adasum_world2_def fused_adasum_def adasum_combine_def)
  have 3: "near (1 / 10000) [84103 / 14938, 48724 / 7469, 110793 / 14938] [5.6301, 6.5235, 7.4169]"
    by (simp add: near_def)
  show ?thesis using 1 2 3 by blast
qed

text \<open>
  The test's vectors, with squared norms 77 and 194 and dot product 122, so the weights
  are \<open>16/77\<close> and \<open>133/194\<close>; and a zero vector against \<open>[7, 8, 9]\<close>.
\<close>

theorem adasum_pairwise_combination_witness:
  "length [4, 5, 6 :: real] = length [7, 8, 9 :: real]
   \<and> dot [4, 5, 6] [4, 5, 6] = 77 \<and> dot [7, 8, 9] [7, 8, 9] = 194 \<and> dot [4, 5, 6] [7, 8, 9] = 122
   \<and> adasum_combine [4, 5, 6] [7, 8, 9]
       = vadd (scale (16 / 77) [4, 5, 6]) (scale (133 / 194) [7, 8, 9])
   \<and> dot [0, 0, 0] [0, 0, 0] = 0
   \<and> adasum_combine [0, 0, 0] [7, 8, 9] = vadd [0, 0, 0] [7, 8, 9]"
proof -
  have d: "dot [4, 5, 6] [4, 5, 6] = 77" "dot [7, 8, 9] [7, 8, 9] = 194"
    "dot [4, 5, 6] [7, 8, 9] = 122" "dot [0, 0, 0] [0, 0, 0] = 0"
    by (simp_all add: dot_def)
  have 1: "adasum_combine [4, 5, 6] [7, 8, 9]
       = vadd (scale (16 / 77) [4, 5, 6]) (scale (133 / 194) [7, 8, 9])"
    using adasum_pairwise_combination [of "[4, 5, 6]" "[7, 8, 9]"] d by simp
  have 2: "adasum_combine [0, 0, 0] [7, 8, 9] = vadd [0, 0, 0] [7, 8, 9]"
    using adasum_pairwise_combination [of "[0, 0, 0]" "[7, 8, 9]"] d by simp
  show ?thesis using d 1 2 by simp
qed

text \<open>
  Claim C7. The combination does not depend on which vector is the local and which the
  received one. In a fused request, tensor \<open>j\<close> of the result is the combination of the
  two tensors \<open>j\<close> alone, and it is the same on both sides. With rank 0 holding
  \<open>([4, 5, 6], [7, 8, 9])\<close> and rank 1 holding \<open>([7, 8, 9], [4, 5, 6])\<close>, all four outputs are
  the same vector, within \<open>10\<^sup>-\<^sup>4\<close> of \<open>[5.6301, 6.5235, 7.4169]\<close>; combining the two fused
  buffers as single vectors would give something else.
\<close>

theorem adasum_symmetric:
  "adasum_combine a b = adasum_combine b a
   \<and> length (fused_adasum ls rs) = min (length ls) (length rs)
   \<and> (\<forall>j < min (length ls) (length rs).
        fused_adasum ls rs ! j = adasum_combine (ls ! j) (rs ! j)
        \<and> fused_adasum rs ls ! j = fused_adasum ls rs ! j)
   \<and> adasum_world2 [[4, 5, 6], [7, 8, 9]] [[7, 8, 9], [4, 5, 6]]
       = ([[84103 / 14938, 48724 / 7469, 110793 / 14938],
           [84103 / 14938, 48724 / 7469, 110793 / 14938]],
          [[84103 / 14938, 48724 / 7469, 110793 / 14938],
           [84103 / 14938, 48724 / 7469, 110793 / 14938]])
   \<and> near (1 / 10000) [84103 / 14938, 48724 / 7469, 110793 / 14938] [5.6301, 6.5235, 7.4169]
   \<and> adasum_combine (concat [[4, 5, 6], [7, 8, 9]]) (concat [[7, 8, 9], [4, 5, 6]])
       \<noteq> concat (fused_adasum [[4, 5, 6], [7, 8, 9]] [[7, 8, 9], [4, 5, 6]])"
proof -
  have 1: "adasum_combine a b = adasum_combine b a"
    by (rule adasum_combine_commute)
  have 2: "length (fused_adasum ls rs) = min (length ls) (length rs)"
    by (simp add: fused_adasum_def)
  have 3: "\<forall>j < min (length ls) (length rs).
        fused_adasum ls rs ! j = adasum_combine (ls ! j) (rs ! j)
        \<and> fused_adasum rs ls ! j = fused_adasum ls rs ! j"
    by (simp add: fused_adasum_def adasum_combine_commute)
  have 4: "adasum_world2 [[4, 5, 6], [7, 8, 9]] [[7, 8, 9], [4, 5, 6]]
       = ([[84103 / 14938, 48724 / 7469, 110793 / 14938],
           [84103 / 14938, 48724 / 7469, 110793 / 14938]],
          [[84103 / 14938, 48724 / 7469, 110793 / 14938],
           [84103 / 14938, 48724 / 7469, 110793 / 14938]])"
    by (simp add: adasum_world2_def fused_adasum_def adasum_combine_def)
  have 5: "near (1 / 10000) [84103 / 14938, 48724 / 7469, 110793 / 14938] [5.6301, 6.5235, 7.4169]"
    by (simp add: near_def)
  have 6: "adasum_combine (concat [[4, 5, 6], [7, 8, 9]]) (concat [[7, 8, 9], [4, 5, 6]])
       \<noteq> concat (fused_adasum [[4, 5, 6], [7, 8, 9]] [[7, 8, 9], [4, 5, 6]])"
    by (simp add: fused_adasum_def adasum_combine_def)
  show ?thesis using 1 2 3 4 5 6 by blast
qed

text \<open>Tensor 1 of the test's fused request.\<close>

theorem adasum_symmetric_witness:
  "(1 :: nat) < min (length [[4, 5, 6], [7, 8, 9 :: real]]) (length [[7, 8, 9], [4, 5, 6 :: real]])
   \<and> fused_adasum [[4, 5, 6], [7, 8, 9]] [[7, 8, 9], [4, 5, 6]] ! 1
       = adasum_combine [7, 8, 9] [4, 5, 6]
   \<and> fused_adasum [[7, 8, 9], [4, 5, 6]] [[4, 5, 6], [7, 8, 9]] ! 1
       = fused_adasum [[4, 5, 6], [7, 8, 9]] [[7, 8, 9], [4, 5, 6]] ! 1"
  using adasum_symmetric [of _ _ "[[4, 5, 6], [7, 8, 9]]" "[[7, 8, 9], [4, 5, 6]]"]
  by simp

section \<open>The flat sum\<close>

text \<open>
  Claim C3. With two ranks, both ranks receive the sum of the two vectors, element by
  element; \<open>[4, 5, 6]\<close> and \<open>[7, 8, 9]\<close> give \<open>[11, 13, 15]\<close> on both.
\<close>

theorem flat_sum_two_ranks:
  "flat_allreduce [a, b] = [vadd a b, vadd a b]
   \<and> (length a = length b \<longrightarrow>
        length (vadd a b) = length a \<and> (\<forall>i < length a. vadd a b ! i = a ! i + b ! i))
   \<and> flat_allreduce [[4, 5, 6], [7, 8, 9]] = [[11, 13, 15], [11, 13, 15]]"
  by (simp add: flat_allreduce_def vadd_def)

text \<open>The test's vectors, at element 1.\<close>

theorem flat_sum_two_ranks_witness:
  "length [4, 5, 6 :: real] = length [7, 8, 9 :: real]
   \<and> length (vadd [4, 5, 6] [7, 8, 9]) = 3
   \<and> vadd [4, 5, 6] [7, 8, 9] ! 1 = 5 + 8
   \<and> flat_allreduce [[4, 5, 6], [7, 8, 9]] = [vadd [4, 5, 6] [7, 8, 9], vadd [4, 5, 6] [7, 8, 9]]"
  using flat_sum_two_ranks [of "[4, 5, 6]" "[7, 8, 9]"]
  by simp

end
